theory Spec2Isabelle
  imports Main
begin

section \<open>The configuration wizard (configurator/configurator.go)\<close>

subsection \<open>Static data\<close>

text \<open>
  The Go map literal \<open>resourceSpecificationURL\<close>, entry by entry as the source lists it,
  and the map it denotes.
\<close>

definition resourceSpecificationURL_entries :: "(string \<times> string) list" where
  "resourceSpecificationURL_entries =
    [(''us-east-2'',      ''https://dnwj8swjjbsbt.cloudfront.net''),
     (''us-east-1'',      ''https://d1uauaxba7bl26.cloudfront.net''),
     (''us-west-1'',      ''https://d68hl49wbnanq.cloudfront.net''),
     (''us-west-2'',      ''https://d201a2mn26r7lk.cloudfront.net''),
     (''ap-south-1'',     ''https://d2senuesg1djtx.cloudfront.net''),
     (''ap-northeast-2'', ''https://d1ane3fvebulky.cloudfront.net''),
     (''ap-southeast-1'', ''https://doigdx0kgq9el.cloudfront.net''),
     (''ap-southeast-2'', ''https://d2stg8d246z9di.cloudfront.net''),
     (''ap-northeast-1'', ''https://d33vqc0rt9ld30.cloudfront.net''),
     (''ca-central-1'',   ''https://d2s8ygphhesbe7.cloudfront.net''),
     (''eu-central-1'',   ''https://d1mta8qj7i28i2.cloudfront.net''),
     (''eu-west-1'',      ''https://d3teyb21fexa9r.cloudfront.net''),
     (''eu-west-2'',      ''https://d1742qcu2c1ncx.cloudfront.net''),
     (''sa-east-1'',      ''https://d3c9jyj3w509b0.cloudfront.net'')]"

definition resourceSpecificationURL :: "string \<rightharpoonup> string" where
  "resourceSpecificationURL = map_of resourceSpecificationURL_entries"

text \<open>\<open>makeArrayRegions\<close>: the array \<open>[14]string\<close>, index 0 first.\<close>

definition makeArrayRegions :: "string list" where
  "makeArrayRegions =
    [''us-east-1'', ''us-east-2'', ''us-west-1'', ''us-west-2'',
     ''ca-central-1'', ''ca-central-1'', ''eu-west-1'', ''eu-west-2'',
     ''ap-northeast-1'', ''ap-northeast-2'', ''ap-southeast-1'', ''ap-southeast-2'',
     ''ap-south-1'', ''sa-east-1'']"

subsection \<open>The world the wizard runs in\<close>

text \<open>
  The wizard talks to a logger, reads the operator's answers and looks at the file system.
  All three are state: \<open>logged\<close> is what the logger has been asked to print, oldest
  first; \<open>numbers\<close> and \<open>texts\<close> are the answers the operator gives to the integer
  and to the text prompts, in order, with \<open>numbers_read\<close> and \<open>texts_read\<close>
  counting the answers consumed so far; \<open>filesystem\<close> says what is at each path, and
  \<open>saved\<close> lists the records handed to the persistence collaborator.
  The answers are infinite sequences: the operator can always be asked again.
\<close>

datatype log_line = Always string | Error string | Prompt string

datatype node = Absent | Present | Inaccessible

text \<open>
  \<open>configuration.Configuration\<close>: its declaration is in the package
  \<open>configuration\<close>; the fields are those the struct literal of \<open>createConfig\<close> names.
\<close>

record Configuration =
  DefaultProfile :: string
  DefaultRegion :: string
  SpecificationURL :: "string \<rightharpoonup> string"
  DefaultDecisionForMFA :: bool
  DefaultDurationForMFA :: int
  DefaultVerbosity :: string

record world =
  logged :: "log_line list"
  numbers :: "nat \<Rightarrow> int"
  numbers_read :: nat
  texts :: "nat \<Rightarrow> string"
  texts_read :: nat
  filesystem :: "string \<Rightarrow> node"
  saved :: "(string \<times> Configuration) list"

definition Logger_Always :: "string \<Rightarrow> world \<Rightarrow> world" where
  "Logger_Always msg w = w\<lparr>logged := logged w @ [Always msg]\<rparr>"

definition Logger_Error :: "string \<Rightarrow> world \<Rightarrow> world" where
  "Logger_Error msg w = w\<lparr>logged := logged w @ [Error msg]\<rparr>"

text \<open>
  Modelled from the spec: \<open>Logger.GetInput\<close> (package \<open>logger\<close>) shows the prompt and
  reads the operator's next answer into the variable it is given: an integer for the region
  choice ("reads an integer"), a string for the profile ("reads a string").
\<close>

definition GetInput_int :: "string \<Rightarrow> world \<Rightarrow> int \<times> world" where
  "GetInput_int msg w =
     (numbers w (numbers_read w),
      w\<lparr>logged := logged w @ [Prompt msg], numbers_read := Suc (numbers_read w)\<rparr>)"

definition GetInput_string :: "string \<Rightarrow> world \<Rightarrow> string \<times> world" where
  "GetInput_string msg w =
     (texts w (texts_read w),
      w\<lparr>logged := logged w @ [Prompt msg], texts_read := Suc (texts_read w)\<rparr>)"

text \<open>
  \<open>os.Stat\<close> followed by \<open>os.IsNotExist\<close>: true exactly when nothing is at the path.
  A path that exists but cannot be inspected gives an error that is not "not exist".
\<close>

definition IsNotExist_Stat :: "string \<Rightarrow> world \<Rightarrow> bool" where
  "IsNotExist_Stat path w = (filesystem w path = Absent)"

text \<open>
  Modelled from the spec: \<open>configuration.SaveToFile\<close> (package \<open>configuration\<close>):
  "the resulting Configuration Record is handed to the persistence collaborator for
  serialization to that path".
\<close>

definition SaveToFile :: "Configuration \<Rightarrow> string \<Rightarrow> world \<Rightarrow> world" where
  "SaveToFile con path w = w\<lparr>filesystem := (filesystem w)(path := Present), saved := saved w @ [(path, con)]\<rparr>"

subsection \<open>The wizard's functions\<close>

text \<open>\<open>strconv.Itoa\<close>: the decimal numeral of an integer.\<close>

fun decimal :: "nat \<Rightarrow> string" where
  "decimal n =
     (if n < 10 then [char_of (48 + n)]
      else decimal (n div 10) @ [char_of (48 + n mod 10)])"

declare decimal.simps [simp del]

definition Itoa :: "int \<Rightarrow> string" where
  "Itoa i = (if i < 0 then CHR ''-'' # decimal (nat (- i)) else decimal (nat i))"

text \<open>\<open>showRegions\<close>: the loop \<open>for i := 0; i < len(regions); i++\<close>.\<close>

function showRegions_loop :: "string list \<Rightarrow> nat \<Rightarrow> world \<Rightarrow> world" where
  "showRegions_loop regions i w =
     (if i < length regions
      then showRegions_loop regions (Suc i)
             (Logger_Always (''Number '' @ Itoa (int i) @ '' region '' @ regions ! i) w)
      else w)"
  by pat_completeness auto
termination
  by (relation "measure (\<lambda>(regions, i, w). length regions - i)") auto

declare showRegions_loop.simps [simp del]

definition showRegions :: "world \<Rightarrow> world" where
  "showRegions w = showRegions_loop makeArrayRegions 0 (Logger_Always ''Regions:'' w)"

text \<open>
  \<open>setRegions\<close> returns \<open>(region, err)\<close>; \<open>err\<close> is true when the choice was accepted.
  The index is only used inside the guard \<open>0 \<le> n < 14\<close>, so the array access cannot
  fail. On the rejecting branch \<open>region\<close> keeps its zero value, the empty string.
\<close>

definition setRegions :: "world \<Rightarrow> string \<times> bool \<times> world" where
  "setRegions w =
     (case GetInput_int ''Choose region'' w of (numberRegion, w1) \<Rightarrow>
        let regions = makeArrayRegions in
        if numberRegion \<ge> 0 \<and> numberRegion < 14
        then (let region = regions ! nat numberRegion
              in (region, True, Logger_Always (''Your region is: '' @ region) w1))
        else ('''', False, Logger_Error ''Invalid region'' w1))"

definition setProfile :: "world \<Rightarrow> string \<times> bool \<times> world" where
  "setProfile w =
     (case GetInput_string ''Input name of profile'' w of (profile, w1) \<Rightarrow>
        if profile \<noteq> ''''
        then (profile, True, Logger_Always (''Your profile is: '' @ profile) w1)
        else (profile, False, Logger_Error ''Invalid profile'' w1))"

text \<open>
  The two retry loops of \<open>createConfig\<close>, \<open>for !err { ... }\<close>. Neither has a bound on
  the number of rounds, so each is a partial function: \<open>None\<close> is the loop that never
  ends.
\<close>

partial_function (option) retryRegions :: "string \<Rightarrow> bool \<Rightarrow> world \<Rightarrow> (string \<times> world) option" where
  "retryRegions myRegion err w =
     (if \<not> err
      then (case setRegions (Logger_Always ''Try again, invalid region'' w) of
              (myRegion', err', w') \<Rightarrow> retryRegions myRegion' err' w')
      else Some (myRegion, w))"

partial_function (option) retryProfile :: "string \<Rightarrow> bool \<Rightarrow> world \<Rightarrow> (string \<times> world) option" where
  "retryProfile myProfile err1 w =
     (if \<not> err1
      then (case setProfile (Logger_Always ''Try again, invalid profile'' w) of
              (myProfile', err1', w') \<Rightarrow> retryProfile myProfile' err1' w')
      else Some (myProfile, w))"

text \<open>Lines 91 to 95 of \<open>createConfig\<close>: the first call and the retry loop.\<close>

definition chooseRegion :: "world \<Rightarrow> (string \<times> world) option" where
  "chooseRegion w = (case setRegions w of (myRegion, err, w') \<Rightarrow> retryRegions myRegion err w')"

text \<open>Lines 96 to 100.\<close>

definition chooseProfile :: "world \<Rightarrow> (string \<times> world) option" where
  "chooseProfile w = (case setProfile w of (myProfile, err1, w') \<Rightarrow> retryProfile myProfile err1 w')"

definition createConfig :: "world \<Rightarrow> (Configuration \<times> world) option" where
  "createConfig w =
     (case chooseRegion w of
        None \<Rightarrow> None
      | Some (myRegion, w1) \<Rightarrow>
          (case chooseProfile w1 of
             None \<Rightarrow> None
           | Some (myProfile, w2) \<Rightarrow>
               Some (\<lparr>DefaultProfile = myProfile,
                      DefaultRegion = myRegion,
                      SpecificationURL = resourceSpecificationURL,
                      DefaultDecisionForMFA = False,
                      DefaultDurationForMFA = 3600,
                      DefaultVerbosity = ''INFO''\<rparr>, w2)))"

definition findFile :: "string \<Rightarrow> world \<Rightarrow> world option" where
  "findFile path w =
     (let w1 = Logger_Always (''File will be created in '' @ path) w in
      if IsNotExist_Stat path w1
      then (case createConfig (showRegions w1) of None \<Rightarrow> None
            | Some (con, w2) \<Rightarrow> Some (SaveToFile con path w2))
      else Some (Logger_Always ''File already exists in this path'' w1))"

section \<open>The command-line parser (cliparser/cliparser.go)\<close>

subsection \<open>The grammar the source declares\<close>

text \<open>
  \<open>ParseCliArguments\<close> declares its grammar with the library kingpin
  (\<open>gopkg.in/alecthomas/kingpin.v2\<close>): flags of the application, commands, and for each
  command its positional arguments and its own flags. Every clause is bound to a Go
  variable; the clause records that variable's name, so that the code after the parse reads
  the same variables as the source does.
\<close>

datatype clause_value = BoolValue | StringValue | StringsValue | Int64Value
  | EnumsValue "string list" | StringMapValue

datatype flag_clause =
  Flag (flag_var: string) (flag_name: string) (flag_short: "char option") (flag_value: clause_value)

datatype arg_clause =
  Arg (arg_var: string) (arg_name: string) (arg_required: bool) (arg_value: clause_value)

datatype cmd_clause =
  Command (cmd_name: string) (cmd_args: "arg_clause list") (cmd_flags: "flag_clause list")

definition ValidateMode :: string where "ValidateMode = ''validate''"
definition ConvertMode :: string where "ConvertMode = ''convert''"
definition OfflineValidateMode :: string where "OfflineValidateMode = ''validate_offline''"
definition ConfigureMode :: string where "ConfigureMode = ''configure''"
definition CreateStackMode :: string where "CreateStackMode = ''create-stack''"
definition DestroyStackMode :: string where "DestroyStackMode = ''delete-stack''"
definition UpdateStackMode :: string where "UpdateStackMode = ''update-stack''"
definition MfaMode :: string where "MfaMode = ''mfa''"
definition SetupSinkMode :: string where "SetupSinkMode = ''setup-remote-sink''"
definition DestroySinkMode :: string where "DestroySinkMode = ''destroy-remote-sink''"
definition CreateParametersMode :: string where "CreateParametersMode = ''create-parameters''"
definition SetStackPolicyMode :: string where "SetStackPolicyMode = ''set-stack-policy''"

lemmas mode_defs =
  ValidateMode_def ConvertMode_def OfflineValidateMode_def ConfigureMode_def CreateStackMode_def
  DestroyStackMode_def UpdateStackMode_def MfaMode_def SetupSinkMode_def DestroySinkMode_def
  CreateParametersMode_def SetStackPolicyMode_def

text \<open>
  The flags kingpin gives every application (\<open>kingpin.New\<close>), \<open>--help\<close> with the
  short form \<open>-h\<close> of line 135, and \<open>--version\<close> of line 136.
\<close>

definition HelpFlag :: flag_clause where
  "HelpFlag = Flag ''kingpin.help'' ''help'' (Some CHR ''h'') BoolValue"

definition VersionFlag :: flag_clause where
  "VersionFlag = Flag ''kingpin.version'' ''version'' None BoolValue"

definition library_flags :: "flag_clause list" where
  "library_flags =
    [HelpFlag,
     Flag ''kingpin.help-long'' ''help-long'' None BoolValue,
     Flag ''kingpin.help-man'' ''help-man'' None BoolValue,
     Flag ''kingpin.completion'' ''completion-bash'' None BoolValue,
     Flag ''kingpin.completion-script-bash'' ''completion-script-bash'' None BoolValue,
     Flag ''kingpin.completion-script-zsh'' ''completion-script-zsh'' None BoolValue]"

text \<open>Lines 75 to 84.\<close>

definition app_flags :: "flag_clause list" where
  "app_flags = library_flags @
    [Flag ''quiet'' ''quiet'' (Some CHR ''q'') BoolValue,
     Flag ''yes'' ''yes'' (Some CHR ''y'') BoolValue,
     Flag ''verbosity'' ''verbosity'' (Some CHR ''v'') StringValue,
     Flag ''mfa'' ''mfa'' None BoolValue,
     Flag ''DurationForMFA'' ''duration'' (Some CHR ''d'') Int64Value,
     Flag ''profile'' ''profile'' (Some CHR ''p'') StringValue,
     Flag ''region'' ''region'' (Some CHR ''r'') StringValue,
     Flag ''sandbox'' ''sandbox'' None BoolValue,
     Flag ''configurationPath'' ''config'' (Some CHR ''c'') StringValue,
     Flag ''showProgress'' ''progress'' None BoolValue,
     VersionFlag]"

text \<open>Lines 86 to 132, command by command.\<close>

definition onlineValidate :: cmd_clause where
  "onlineValidate = Command ValidateMode
     [Arg ''onlineValidateTemplate'' ''template'' False StringValue] []"

definition offlineValidate :: cmd_clause where
  "offlineValidate = Command OfflineValidateMode
     [Arg ''offlineValidateTemplate'' ''template'' False StringValue] []"

definition convert :: cmd_clause where
  "convert = Command ConvertMode
     [Arg ''convertTemplate'' ''template'' False StringValue,
      Arg ''convertOutputFile'' ''output'' False StringValue]
     [Flag ''convertPrettyPrint'' ''pretty-print'' None BoolValue]"

definition configure :: cmd_clause where
  "configure = Command ConfigureMode [] []"

definition createStack :: cmd_clause where
  "createStack = Command CreateStackMode
     [Arg ''createStackName'' ''stack'' True StringValue,
      Arg ''createStackTemplate'' ''template'' True StringValue]
     [Flag ''createStackCapabilities'' ''capabilities'' None
        (EnumsValue [''CAPABILITY_IAM'', ''CAPABILITY_NAMED_IAM'']),
      Flag ''createStackParams'' ''parameter'' None StringMapValue,
      Flag ''createStackParametersFile'' ''parameters-file'' None StringValue]"

definition deleteStack :: cmd_clause where
  "deleteStack = Command DestroyStackMode
     [Arg ''deleteStackName'' ''stack'' False StringValue] []"

definition updateStack :: cmd_clause where
  "updateStack = Command UpdateStackMode
     [Arg ''updateStackName'' ''stack'' False StringValue,
      Arg ''updateStackTemplate'' ''template'' False StringValue]
     [Flag ''updateStackCapabilities'' ''capabilities'' None
        (EnumsValue [''CAPABILITY_IAM'', ''CAPABILITY_NAMED_IAM''])]"

definition mfaCommand :: cmd_clause where
  "mfaCommand = Command MfaMode [] []"

definition setupSink :: cmd_clause where
  "setupSink = Command SetupSinkMode [] []"

definition destroySink :: cmd_clause where
  "destroySink = Command DestroySinkMode [] []"

definition createParameters :: cmd_clause where
  "createParameters = Command CreateParametersMode
     [Arg ''createParametersTemplate'' ''template'' False StringValue,
      Arg ''createParametersParamsOutputFile'' ''output'' False StringValue]
     [Flag ''createParametersParams'' ''parameter'' None StringMapValue,
      Flag ''createParametersPrettyPrint'' ''pretty-print'' None BoolValue]"

definition setStackPolicy :: cmd_clause where
  "setStackPolicy = Command SetStackPolicyMode
     [Arg ''setStackPolicyName'' ''stack'' False StringValue,
      Arg ''setStackPolicyTemplate'' ''template'' False StringValue]
     [Flag ''setDefaultBlockingStackPolicy'' ''block'' None BoolValue,
      Flag ''setDefaultUnblockingStackPolicy'' ''unblock'' None BoolValue,
      Flag ''setDisableStackTermination'' ''disable-stack-termination'' None BoolValue,
      Flag ''setEnableStackTermination'' ''enable-stack-termination'' None BoolValue]"

text \<open>
  An application with commands also gets the command \<open>help [<command>...]\<close>, placed
  first.
\<close>

definition HelpCommand :: cmd_clause where
  "HelpCommand = Command ''help'' [Arg ''kingpin.help-command'' ''command'' False StringsValue] []"

definition app_commands :: "cmd_clause list" where
  "app_commands =
    [HelpCommand, onlineValidate, offlineValidate, convert, configure, createStack, deleteStack,
     updateStack, mfaCommand, setupSink, destroySink, createParameters, setStackPolicy]"

lemmas command_defs =
  HelpCommand_def onlineValidate_def offlineValidate_def convert_def configure_def createStack_def
  deleteStack_def updateStack_def mfaCommand_def setupSink_def destroySink_def
  createParameters_def setStackPolicy_def

definition FullCommand :: "cmd_clause \<Rightarrow> string" where
  "FullCommand c = cmd_name c"

subsection \<open>The library's parser\<close>

text \<open>
  kingpin is not part of the repository. What follows models its release 2.2 for a grammar of
  this shape: the tokenizer (\<open>ParseContext.Next\<close>, \<open>Peek\<close>), the parse loop
  (\<open>parse\<close>, \<open>flagGroup.parse\<close>), the setting of the bound variables
  (\<open>Application.setValues\<close>) and the order of the checks in \<open>Application.Parse\<close>.
  No clause of the grammar has a default value, an environment variable or a default
  command, so those parts of the library have nothing to do. Argument files (\<open>@file\<close>)
  need the file system; the model has none to offer, and an argument \<open>@file\<close> gives the
  error token the library produces when the file cannot be read.
\<close>

datatype token = TokenShort string | TokenLong string | TokenArg string | TokenError string
  | TokenEOL

datatype element = FlagElement flag_clause string | ArgElement arg_clause string
  | CmdElement cmd_clause

datatype kp_error =
    ExpectedCommand string
  | UnknownLongFlag string
  | UnknownShortFlag string
  | ExpectedFlagArgument string
  | UnexpectedToken token
  | TokenFailure string
  | FlagRepeated string
  | InvalidValue string string
  | RequiredArgument string

text \<open>
  \<open>pc_cmds\<close> is the local variable \<open>cmds\<close> of the library's \<open>parse\<close>: the
  commands that can still be selected. \<open>pc_peek\<close> is the stack of tokens pushed back, top
  first.
\<close>

record ParseContext =
  pc_args :: "string list"
  pc_peek :: "token list"
  pc_argsOnly :: bool
  pc_flags :: "flag_clause list"
  pc_arguments :: "arg_clause list"
  pc_argi :: nat
  pc_Elements :: "element list"
  pc_cmds :: "cmd_clause list"

definition long_flag :: "flag_clause list \<Rightarrow> string \<Rightarrow> flag_clause option" where
  "long_flag fs name = find (\<lambda>f. flag_name f = name) fs"

definition short_flag :: "flag_clause list \<Rightarrow> string \<Rightarrow> flag_clause option" where
  "short_flag fs name = (case name of [c] \<Rightarrow> find (\<lambda>f. flag_short f = Some c) fs | _ \<Rightarrow> None)"

definition IsBoolFlag :: "flag_clause \<Rightarrow> bool" where
  "IsBoolFlag f = (flag_value f = BoolValue)"

definition IsCumulative :: "clause_value \<Rightarrow> bool" where
  "IsCumulative v = (case v of EnumsValue _ \<Rightarrow> True | StringMapValue \<Rightarrow> True
                     | StringsValue \<Rightarrow> True | _ \<Rightarrow> False)"

text \<open>
  \<open>Next\<close>: a token pushed back comes first. Otherwise the next argument is classified:
  after \<open>--\<close> everything is a plain argument; \<open>--name=value\<close> is the long flag
  \<open>name\<close> with \<open>value\<close> pushed back as a plain argument; \<open>-xREST\<close> is the short
  flag \<open>x\<close>, and \<open>REST\<close> is its value when \<open>x\<close> is a known flag that takes one,
  and otherwise goes back to the arguments as \<open>-REST\<close>.
\<close>

definition Next :: "ParseContext \<Rightarrow> token \<times> ParseContext" where
  "Next p =
    (case pc_peek p of
       t # ts \<Rightarrow> (t, p\<lparr>pc_peek := ts\<rparr>)
     | [] \<Rightarrow>
        (case pc_args p of
           [] \<Rightarrow> (TokenEOL, p)
         | arg # rest \<Rightarrow>
            if pc_argsOnly p then (TokenArg arg, p\<lparr>pc_args := rest\<rparr>)
            else if arg = ''--'' then
              (case rest of
                 [] \<Rightarrow> (TokenEOL, p\<lparr>pc_args := [], pc_argsOnly := True\<rparr>)
               | a # r \<Rightarrow> (TokenArg a, p\<lparr>pc_args := r, pc_argsOnly := True\<rparr>))
            else if take 2 arg = ''--'' then
              (let body = drop 2 arg;
                   name = takeWhile (\<lambda>c. c \<noteq> CHR ''='') body;
                   val = dropWhile (\<lambda>c. c \<noteq> CHR ''='') body
               in (TokenLong name,
                   p\<lparr>pc_args := rest,
                     pc_peek := (if val = [] then [] else [TokenArg (tl val)])\<rparr>))
            else if take 1 arg = ''-'' then
              (case tl arg of
                 [] \<Rightarrow> (TokenShort [], p\<lparr>pc_args := rest\<rparr>)
               | c # tail \<Rightarrow>
                  (case short_flag (pc_flags p) [c] of
                     Some f \<Rightarrow>
                       if IsBoolFlag f
                       then (TokenShort [c],
                             p\<lparr>pc_args := (if tail = [] then rest else (CHR ''-'' # tail) # rest)\<rparr>)
                       else (TokenShort [c],
                             p\<lparr>pc_args := rest,
                               pc_peek := (if tail = [] then [] else [TokenArg tail])\<rparr>)
                   | None \<Rightarrow>
                       (TokenShort [c],
                        p\<lparr>pc_args := (if tail = [] then rest else (CHR ''-'' # tail) # rest)\<rparr>)))
            else if take 1 arg = ''@'' then (TokenError (tl arg), p\<lparr>pc_args := rest\<rparr>)
            else (TokenArg arg, p\<lparr>pc_args := rest\<rparr>)))"

definition Peek :: "ParseContext \<Rightarrow> token \<times> ParseContext" where
  "Peek p =
    (case pc_peek p of
       t # ts \<Rightarrow> (t, p)
     | [] \<Rightarrow> (case Next p of (t, p') \<Rightarrow> (t, p'\<lparr>pc_peek := t # pc_peek p'\<rparr>)))"

definition matchedFlag :: "flag_clause \<Rightarrow> string \<Rightarrow> ParseContext \<Rightarrow> ParseContext" where
  "matchedFlag f v p = p\<lparr>pc_Elements := pc_Elements p @ [FlagElement f v]\<rparr>"

definition matchedArg :: "arg_clause \<Rightarrow> string \<Rightarrow> ParseContext \<Rightarrow> ParseContext" where
  "matchedArg a v p = p\<lparr>pc_Elements := pc_Elements p @ [ArgElement a v]\<rparr>"

definition matchedCmd :: "cmd_clause \<Rightarrow> ParseContext \<Rightarrow> ParseContext" where
  "matchedCmd cmd p =
     p\<lparr>pc_Elements := pc_Elements p @ [CmdElement cmd],
       pc_flags := pc_flags p @ cmd_flags cmd,
       pc_arguments := pc_arguments p @ cmd_args cmd,
       pc_cmds := []\<rparr>"

text \<open>
  \<open>nextArg\<close>: the next positional argument of the selected command, if one is left. An
  argument that takes the whole remainder stays the next one.
\<close>

definition nextArg :: "ParseContext \<Rightarrow> (arg_clause \<times> ParseContext) option" where
  "nextArg p =
     (if pc_argi p \<ge> length (pc_arguments p) then None
      else (let arg = pc_arguments p ! pc_argi p
            in Some (arg, if arg_value arg = StringsValue then p else p\<lparr>pc_argi := Suc (pc_argi p)\<rparr>)))"

text \<open>
  \<open>flagGroup.parse\<close>, called with a flag token on top: the flag is looked up, a long
  name also without a leading \<open>no-\<close>; a boolean flag is matched at once, any other flag
  needs a plain argument as the next token.
\<close>

definition matchFlagValue ::
  "flag_clause \<Rightarrow> bool \<Rightarrow> string \<Rightarrow> ParseContext \<Rightarrow> kp_error + ParseContext" where
  "matchFlagValue f invert shown p =
     (case Next p of (flagToken, p1) \<Rightarrow>
        if IsBoolFlag f
        then Inr (matchedFlag f (if invert then ''false'' else ''true'') p1)
        else if invert then Inl (UnknownLongFlag shown)
        else (case Peek p1 of (token, p2) \<Rightarrow>
                (case token of
                   TokenArg v \<Rightarrow> (case Next p2 of (t, p3) \<Rightarrow> Inr (matchedFlag f v p3))
                 | _ \<Rightarrow> Inl (ExpectedFlagArgument shown))))"

definition flagGroup_parse :: "ParseContext \<Rightarrow> kp_error + ParseContext" where
  "flagGroup_parse p =
     (case Peek p of (token, p1) \<Rightarrow>
        (case token of
           TokenLong name \<Rightarrow>
             (case long_flag (pc_flags p1) name of
                Some f \<Rightarrow> matchFlagValue f False name p1
              | None \<Rightarrow>
                 if take 3 name = ''no-''
                 then (case long_flag (pc_flags p1) (drop 3 name) of
                         Some f \<Rightarrow> matchFlagValue f True name p1
                       | None \<Rightarrow> Inl (UnknownLongFlag name))
                 else Inl (UnknownLongFlag name))
         | TokenShort name \<Rightarrow>
             (case short_flag (pc_flags p1) name of
                Some f \<Rightarrow> matchFlagValue f False name p1
              | None \<Rightarrow> Inl (UnknownShortFlag name))
         | _ \<Rightarrow> Inr p1))"

text \<open>One round of the loop of \<open>parse\<close>.\<close>

datatype iteration = Continue ParseContext | Break ParseContext | Fail kp_error ParseContext

definition parse_step :: "ParseContext \<Rightarrow> iteration" where
  "parse_step p =
     (case Peek p of (token, p1) \<Rightarrow>
        (case token of
           TokenEOL \<Rightarrow> Break p1
         | TokenError m \<Rightarrow> Break p1
         | TokenLong name \<Rightarrow>
             (case flagGroup_parse p1 of Inl e \<Rightarrow> Fail e p1 | Inr p2 \<Rightarrow> Continue p2)
         | TokenShort name \<Rightarrow>
             (case flagGroup_parse p1 of Inl e \<Rightarrow> Fail e p1 | Inr p2 \<Rightarrow> Continue p2)
         | TokenArg a \<Rightarrow>
             if pc_cmds p1 \<noteq> [] then
               (case find (\<lambda>c. cmd_name c = a) (pc_cmds p1) of
                  None \<Rightarrow> Fail (ExpectedCommand a) p1
                | Some cmd \<Rightarrow> Continue (snd (Next (matchedCmd cmd p1))))
             else if pc_arguments p1 \<noteq> [] then
               (case nextArg p1 of
                  None \<Rightarrow> Break p1
                | Some (arg, p2) \<Rightarrow> Continue (snd (Next (matchedArg arg a p2))))
             else Break p1))"

text \<open>
  The weight of what is left to read: it falls with every round that continues, which is why
  the loop ends.
\<close>

definition remaining :: "ParseContext \<Rightarrow> nat" where
  "remaining p = length (pc_peek p) + sum_list (map (\<lambda>a. length a + 2) (pc_args p))"

lemma tl_length: "tl xs = c # r \<Longrightarrow> Suc (Suc (length r)) \<le> length xs"
  by (cases xs) auto

lemma Next_pop: "pc_peek p \<noteq> [] \<Longrightarrow> remaining (snd (Next p)) < remaining p"
  by (simp add: Next_def remaining_def split: list.split)

lemma Next_read:
  "pc_peek p = [] \<Longrightarrow>
     fst (Next p) = TokenEOL \<or> Suc (remaining (snd (Next p))) \<le> remaining p"
  by (simp add: Next_def remaining_def Let_def split: list.split option.split)
    (auto dest: tl_length)

lemma Peek_top: "pc_peek (snd (Peek p)) = fst (Peek p) # tl (pc_peek (snd (Peek p)))"
  by (cases "pc_peek p") (simp_all add: Peek_def split: prod.split)

lemma Peek_remaining:
  "fst (Peek p) = TokenEOL \<or> remaining (snd (Peek p)) \<le> remaining p"
proof (cases "pc_peek p")
  case Nil
  with Next_read[of p] show ?thesis
    by (auto simp: Peek_def remaining_def split: prod.split)
next
  case (Cons t ts)
  then show ?thesis by (simp add: Peek_def)
qed

lemma Peek_again: "pc_peek p = t # ts \<Longrightarrow> Peek p = (t, p)"
  by (simp add: Peek_def)

lemma remaining_matched [simp]:
  "remaining (matchedFlag f v p) = remaining p"
  "remaining (matchedArg a v p) = remaining p"
  "remaining (matchedCmd c p) = remaining p"
  by (simp_all add: remaining_def matchedFlag_def matchedArg_def matchedCmd_def)

lemma peek_matched [simp]:
  "pc_peek (matchedArg a v p) = pc_peek p"
  "pc_peek (matchedCmd c p) = pc_peek p"
  by (simp_all add: matchedArg_def matchedCmd_def)

lemma matchFlagValue_remaining:
  assumes "pc_peek p \<noteq> []" and "matchFlagValue f invert shown p = Inr p'"
  shows "remaining p' < remaining p"
proof -
  obtain t p1 where n: "Next p = (t, p1)" by (cases "Next p") auto
  from Next_pop[OF assms(1)] n have d1: "remaining p1 < remaining p" by simp
  show ?thesis
  proof (cases "IsBoolFlag f")
    case True
    with assms(2) n d1 show ?thesis by (auto simp: matchFlagValue_def)
  next
    case False
    obtain token p2 where pk: "Peek p1 = (token, p2)" by (cases "Peek p1") auto
    from assms(2) n False pk obtain v where tok: "token = TokenArg v"
      by (cases token) (auto simp: matchFlagValue_def split: if_splits)
    obtain t3 p3 where n3: "Next p2 = (t3, p3)" by (cases "Next p2") auto
    from assms(2) n False pk tok n3 have p': "p' = matchedFlag f v p3"
      by (auto simp: matchFlagValue_def split: if_splits)
    from Peek_remaining[of p1] pk tok have d2: "remaining p2 \<le> remaining p1" by simp
    from Peek_top[of p1] pk have "pc_peek p2 \<noteq> []" by (metis list.discI snd_conv)
    from Next_pop[OF this] n3 have "remaining p3 < remaining p2" by simp
    with d1 d2 p' show ?thesis by simp
  qed
qed

lemma flagGroup_parse_remaining:
  assumes "pc_peek p = t # ts" and "(\<exists>n. t = TokenLong n) \<or> (\<exists>n. t = TokenShort n)"
    and "flagGroup_parse p = Inr p'"
  shows "remaining p' < remaining p"
proof -
  have ne: "pc_peek p \<noteq> []" using assms(1) by simp
  from assms(2) show ?thesis
  proof
    assume "\<exists>n. t = TokenLong n"
    then obtain n where "t = TokenLong n" ..
    with assms(1,3) Peek_again[OF assms(1)] show ?thesis
      by (auto simp: flagGroup_parse_def split: option.splits if_splits
            dest: matchFlagValue_remaining[OF ne])
  next
    assume "\<exists>n. t = TokenShort n"
    then obtain n where "t = TokenShort n" ..
    with assms(1,3) Peek_again[OF assms(1)] show ?thesis
      by (auto simp: flagGroup_parse_def split: option.splits if_splits
            dest: matchFlagValue_remaining[OF ne])
  qed
qed

lemma parse_step_remaining:
  assumes "parse_step p = Continue p'"
  shows "remaining p' < remaining p"
proof -
  obtain token p1 where pk: "Peek p = (token, p1)" by (cases "Peek p") auto
  from Peek_top[of p] pk have top: "pc_peek p1 = token # tl (pc_peek p1)" by simp
  then have ne: "pc_peek p1 \<noteq> []" by (metis list.discI)
  show ?thesis
  proof (cases token)
    case (TokenShort n)
    with assms pk obtain p2 where "flagGroup_parse p1 = Inr p2" "p' = p2"
      by (auto simp: parse_step_def split: sum.splits)
    with flagGroup_parse_remaining[OF top, of p2] TokenShort Peek_remaining[of p] pk
    show ?thesis by auto
  next
    case (TokenLong n)
    with assms pk obtain p2 where "flagGroup_parse p1 = Inr p2" "p' = p2"
      by (auto simp: parse_step_def split: sum.splits)
    with flagGroup_parse_remaining[OF top, of p2] TokenLong Peek_remaining[of p] pk
    show ?thesis by auto
  next
    case (TokenArg a)
    from Peek_remaining[of p] pk TokenArg have le: "remaining p1 \<le> remaining p" by simp
    have pop: "\<And>q. pc_peek q = pc_peek p1 \<Longrightarrow> remaining (snd (Next q)) < remaining q"
      using ne by (simp add: Next_pop)
    from assms pk TokenArg consider
      (cmd) c where "p' = snd (Next (matchedCmd c p1))"
      | (arg) x p2 where "nextArg p1 = Some (x, p2)" "p' = snd (Next (matchedArg x a p2))"
      by (auto simp: parse_step_def split: if_splits option.splits)
    then show ?thesis
    proof cases
      case cmd
      with pop[of "matchedCmd c p1"] le show ?thesis by simp
    next
      case arg
      from arg(1) have "pc_peek p2 = pc_peek p1" "remaining p2 = remaining p1"
        by (auto simp: nextArg_def remaining_def Let_def split: if_splits)
      with pop[of "matchedArg x a p2"] arg(2) le show ?thesis by simp
    qed
  next
    case (TokenError m)
    with assms pk show ?thesis by (simp add: parse_step_def)
  next
    case TokenEOL
    with assms pk show ?thesis by (simp add: parse_step_def)
  qed
qed

text \<open>
  The loop of \<open>parse\<close>: it runs while the next token is neither the end of the line nor an
  error token, and stops at the first error.
\<close>

function parse_loop :: "ParseContext \<Rightarrow> kp_error option \<times> ParseContext" where
  "parse_loop p =
     (case parse_step p of
        Continue p' \<Rightarrow> parse_loop p'
      | Break p' \<Rightarrow> (None, p')
      | Fail e p' \<Rightarrow> (Some e, p'))"
  by pat_completeness auto
termination
  by (relation "measure remaining") (auto simp: parse_step_remaining)

declare parse_loop.simps [simp del]

text \<open>
  \<open>parse\<close>: the application's flags and commands are in scope from the start; after the
  loop an error token or a token that nothing consumed is an error.
\<close>

definition tokenize :: "string list \<Rightarrow> ParseContext" where
  "tokenize args =
     \<lparr>pc_args = args, pc_peek = [], pc_argsOnly = False, pc_flags = app_flags,
      pc_arguments = [], pc_argi = 0, pc_Elements = [], pc_cmds = app_commands\<rparr>"

definition parse :: "string list \<Rightarrow> kp_error option \<times> ParseContext" where
  "parse args =
     (case parse_loop (tokenize args) of
        (Some e, p) \<Rightarrow> (Some e, p)
      | (None, p) \<Rightarrow>
          (case Peek p of (token, p1) \<Rightarrow>
             (case token of
                TokenError m \<Rightarrow> (Some (TokenFailure m), p1)
              | TokenEOL \<Rightarrow> (None, p1)
              | _ \<Rightarrow> (Some (UnexpectedToken token), p1))))"

subsection \<open>Setting the bound variables\<close>

text \<open>
  The Go variables the clauses are bound to, by name. A variable that no element of the
  command line sets keeps the zero value of its type: false, the empty string, 0, the empty
  list, the empty map.
\<close>

datatype val = BoolVal bool | StringVal string | StringsVal "string list" | Int64Val int
  | StringMapVal "string \<rightharpoonup> string"

type_synonym variables = "string \<rightharpoonup> val"

definition boolVar :: "variables \<Rightarrow> string \<Rightarrow> bool" where
  "boolVar vs x = (case vs x of Some (BoolVal b) \<Rightarrow> b | _ \<Rightarrow> False)"

definition stringVar :: "variables \<Rightarrow> string \<Rightarrow> string" where
  "stringVar vs x = (case vs x of Some (StringVal s) \<Rightarrow> s | _ \<Rightarrow> '''')"

definition stringsVar :: "variables \<Rightarrow> string \<Rightarrow> string list" where
  "stringsVar vs x = (case vs x of Some (StringsVal l) \<Rightarrow> l | _ \<Rightarrow> [])"

definition int64Var :: "variables \<Rightarrow> string \<Rightarrow> int" where
  "int64Var vs x = (case vs x of Some (Int64Val i) \<Rightarrow> i | _ \<Rightarrow> 0)"

definition stringMapVar :: "variables \<Rightarrow> string \<Rightarrow> (string \<rightharpoonup> string)" where
  "stringMapVar vs x = (case vs x of Some (StringMapVal m) \<Rightarrow> m | _ \<Rightarrow> Map.empty)"

text \<open>
  \<open>strconv.ParseInt(s, 0, 64)\<close>, which reads a \<open>--duration\<close>: an optional sign, then
  a numeral whose base its prefix gives (\<open>0x\<close> hexadecimal, a leading \<open>0\<close> octal,
  decimal otherwise); the value has to fit 64 bits with sign. These are the numerals of the
  Go releases of the source's time; the prefixes \<open>0b\<close> and \<open>0o\<close> and the underscores
  that later releases also read are syntax errors here.
\<close>

definition digit_value :: "char \<Rightarrow> nat option" where
  "digit_value d =
     (let n = (of_char d :: nat) in
      if 48 \<le> n \<and> n \<le> 57 then Some (n - 48)
      else if 97 \<le> n \<and> n \<le> 122 then Some (n - 97 + 10)
      else if 65 \<le> n \<and> n \<le> 90 then Some (n - 65 + 10)
      else None)"

fun digits_value :: "nat \<Rightarrow> string \<Rightarrow> nat \<Rightarrow> nat option" where
  "digits_value base [] acc = Some acc"
| "digits_value base (d # ds) acc =
     (case digit_value d of
        None \<Rightarrow> None
      | Some v \<Rightarrow> if v \<ge> base then None else digits_value base ds (acc * base + v))"

definition ParseUint :: "string \<Rightarrow> nat option" where
  "ParseUint s =
     (case s of
        [] \<Rightarrow> None
      | c # t \<Rightarrow>
          if c = CHR ''0'' \<and> t \<noteq> [] \<and> (hd t = CHR ''x'' \<or> hd t = CHR ''X'')
          then (if tl t = [] then None else digits_value 16 (tl t) 0)
          else if c = CHR ''0'' then digits_value 8 t 0
          else digits_value 10 s 0)"

definition ParseInt :: "string \<Rightarrow> int option" where
  "ParseInt s =
     (case s of
        [] \<Rightarrow> None
      | c # t \<Rightarrow>
          (let neg = (c = CHR ''-'');
               body = (if c = CHR ''+'' \<or> c = CHR ''-'' then t else s)
           in case ParseUint body of
                None \<Rightarrow> None
              | Some n \<Rightarrow>
                  if \<not> neg \<and> n \<ge> 2 ^ 63 then None
                  else if neg \<and> n > 2 ^ 63 then None
                  else Some (if neg then - int n else int n)))"

text \<open>
  \<open>Value.Set\<close> for each kind of clause; \<open>None\<close> is the error the library reports for a
  malformed value. A boolean flag only ever receives \<open>true\<close> or \<open>false\<close> from the
  parser. Lists and maps accumulate; a map entry is \<open>KEY=VALUE\<close> or \<open>KEY:VALUE\<close>,
  split at the first separator.
\<close>

definition is_separator :: "char \<Rightarrow> bool" where
  "is_separator c = (c = CHR ''='' \<or> c = CHR '':'')"

definition set_value :: "clause_value \<Rightarrow> string \<Rightarrow> string \<Rightarrow> variables \<Rightarrow> variables option" where
  "set_value kind x raw vs =
     (case kind of
        BoolValue \<Rightarrow> Some (vs(x \<mapsto> BoolVal (raw = ''true'')))
      | StringValue \<Rightarrow> Some (vs(x \<mapsto> StringVal raw))
      | StringsValue \<Rightarrow> Some (vs(x \<mapsto> StringsVal (stringsVar vs x @ [raw])))
      | Int64Value \<Rightarrow>
          (case ParseInt raw of None \<Rightarrow> None | Some i \<Rightarrow> Some (vs(x \<mapsto> Int64Val i)))
      | EnumsValue options \<Rightarrow>
          if raw \<in> set options then Some (vs(x \<mapsto> StringsVal (stringsVar vs x @ [raw])))
          else None
      | StringMapValue \<Rightarrow>
          (let key = takeWhile (\<lambda>c. \<not> is_separator c) raw;
               rest = dropWhile (\<lambda>c. \<not> is_separator c) raw
           in if rest = [] then None
              else Some (vs(x \<mapsto> StringMapVal ((stringMapVar vs x)(key \<mapsto> tl rest))))))"

text \<open>
  \<open>Application.setValues\<close>: the elements in the order of the command line; the first
  error stops it, and what was set before stays set. A flag that is not cumulative must not
  come twice.
\<close>

fun setValues :: "element list \<Rightarrow> string list \<Rightarrow> variables \<Rightarrow> kp_error option \<times> variables" where
  "setValues [] flagSet vs = (None, vs)"
| "setValues (FlagElement f raw # es) flagSet vs =
     (if flag_name f \<in> set flagSet \<and> \<not> IsCumulative (flag_value f)
      then (Some (FlagRepeated (flag_name f)), vs)
      else (case set_value (flag_value f) (flag_var f) raw vs of
              None \<Rightarrow> (Some (InvalidValue (flag_name f) raw), vs)
            | Some vs' \<Rightarrow> setValues es (flag_name f # flagSet) vs'))"
| "setValues (ArgElement a raw # es) flagSet vs =
     (case set_value (arg_value a) (arg_var a) raw vs of
        None \<Rightarrow> (Some (InvalidValue (arg_name a) raw), vs)
      | Some vs' \<Rightarrow> setValues es flagSet vs')"
| "setValues (CmdElement c # es) flagSet vs = setValues es flagSet vs"

definition selected :: "element list \<Rightarrow> cmd_clause list" where
  "selected es = concat (map (\<lambda>e. case e of CmdElement c \<Rightarrow> [c] | _ \<Rightarrow> []) es)"

text \<open>
  The clauses whose pre-action prints (long help, man page, completion script, version,
  the \<open>help\<close> command) and then ends the process with status 0.
\<close>

definition terminating_PreAction :: "element \<Rightarrow> bool" where
  "terminating_PreAction e =
     (case e of
        FlagElement f raw \<Rightarrow>
          flag_name f \<in> set [''help-long'', ''help-man'', ''completion-script-bash'',
                              ''completion-script-zsh'', ''version'']
      | CmdElement c \<Rightarrow> c = HelpCommand
      | ArgElement a raw \<Rightarrow> False)"

definition is_HelpFlag :: "element \<Rightarrow> bool" where
  "is_HelpFlag e = (case e of FlagElement f raw \<Rightarrow> f = HelpFlag | _ \<Rightarrow> False)"

text \<open>\<open>validateRequired\<close>: a required argument of the selected command that got no value.\<close>

definition validateRequired :: "ParseContext \<Rightarrow> kp_error option" where
  "validateRequired p =
     (case find (\<lambda>a. arg_required a \<and>
                     \<not> list_ex (\<lambda>e. case e of ArgElement b raw \<Rightarrow> arg_name b = arg_name a
                                               | _ \<Rightarrow> False) (pc_Elements p))
                (pc_arguments p) of
        None \<Rightarrow> None
      | Some a \<Rightarrow> Some (RequiredArgument (arg_name a)))"

text \<open>
  \<open>Application.Parse\<close>. The order is the library's: the values are set and the pre-actions
  run even when the parse failed; then completion, the parse error, \<open>--help\<close>, the error
  of setting the values, the required arguments, and last the command. Without a command
  the library prints the usage and ends the process itself.
\<close>

datatype parse_result = Selected string variables | Failed kp_error | Terminated

definition Parse :: "string list \<Rightarrow> parse_result" where
  "Parse args =
     (case parse args of (parseErr, context) \<Rightarrow>
      case setValues (pc_Elements context) [] Map.empty of (setValuesErr, vs) \<Rightarrow>
        if list_ex terminating_PreAction (pc_Elements context) then Terminated
        else if boolVar vs ''kingpin.completion'' then Terminated
        else (case parseErr of
                Some e \<Rightarrow> Failed e
              | None \<Rightarrow>
                  if list_ex is_HelpFlag (pc_Elements context) then Terminated
                  else (case setValuesErr of
                          Some e \<Rightarrow> Failed e
                        | None \<Rightarrow>
                            (case validateRequired context of
                               Some e \<Rightarrow> Failed e
                             | None \<Rightarrow>
                                 (case selected (pc_Elements context) of
                                    [] \<Rightarrow> Terminated
                                  | c # cs \<Rightarrow> Selected (FullCommand c) vs)))))"

subsection \<open>\<open>ParseCliArguments\<close>\<close>

text \<open>
  \<open>CliArguments\<close>: every field is a pointer; \<open>None\<close> is the nil pointer of a field
  that the selected mode does not set.
\<close>

record CliArguments =
  Mode :: "string option"
  TemplatePath :: "string option"
  Parameters :: "(string \<rightharpoonup> string) option"
  OutputFilePath :: "string option"
  ConfigurationPath :: "string option"
  Quiet :: "bool option"
  Yes :: "bool option"
  Verbosity :: "string option"
  MFA :: "bool option"
  DurationForMFA :: "int option"
  Profile :: "string option"
  Region :: "string option"
  Sandbox :: "bool option"
  Stack :: "string option"
  Capabilities :: "string list option"
  PrettyPrint :: "bool option"
  Progress :: "bool option"
  ParametersFile :: "string option"
  Block :: "bool option"
  Unblock :: "bool option"
  DisableStackTermination :: "bool option"
  EnableStackTermination :: "bool option"

definition zero_CliArguments :: CliArguments where
  "zero_CliArguments =
     \<lparr>Mode = None, TemplatePath = None, Parameters = None, OutputFilePath = None,
      ConfigurationPath = None, Quiet = None, Yes = None, Verbosity = None, MFA = None,
      DurationForMFA = None, Profile = None, Region = None, Sandbox = None, Stack = None,
      Capabilities = None, PrettyPrint = None, Progress = None, ParametersFile = None,
      Block = None, Unblock = None, DisableStackTermination = None,
      EnableStackTermination = None\<rparr>"

text \<open>
  Modelled from the spec: \<open>logger.IsVerbosityValid\<close> (package \<open>logger\<close>): a verbosity
  "must belong to the fixed enumeration {TRACE, DEBUG, INFO, ERROR}".
\<close>

definition IsVerbosityValid :: "string \<Rightarrow> bool" where
  "IsVerbosityValid verbosity = (verbosity \<in> set [''TRACE'', ''DEBUG'', ''INFO'', ''ERROR''])"

text \<open>
  The \<open>switch\<close> of lines 138 to 219 on the command kingpin selected. The cases are tried
  in the order of the source, and the first that matches runs; the case of
  \<open>createParameters\<close> stands twice, as in the source.
\<close>

definition switch_command :: "string \<Rightarrow> variables \<Rightarrow> CliArguments \<Rightarrow> CliArguments" where
  "switch_command command vs cliArguments =
     (if command = FullCommand onlineValidate then
        cliArguments\<lparr>Mode := Some ValidateMode,
                      TemplatePath := Some (stringVar vs ''onlineValidateTemplate'')\<rparr>
      else if command = FullCommand offlineValidate then
        cliArguments\<lparr>Mode := Some OfflineValidateMode,
                      TemplatePath := Some (stringVar vs ''offlineValidateTemplate'')\<rparr>
      else if command = FullCommand convert then
        cliArguments\<lparr>Mode := Some ConvertMode,
                      TemplatePath := Some (stringVar vs ''convertTemplate''),
                      OutputFilePath := Some (stringVar vs ''convertOutputFile''),
                      PrettyPrint := Some (boolVar vs ''convertPrettyPrint'')\<rparr>
      else if command = FullCommand configure then
        cliArguments\<lparr>Mode := Some ConfigureMode\<rparr>
      else if command = FullCommand createStack then
        cliArguments\<lparr>Mode := Some CreateStackMode,
                      Stack := Some (stringVar vs ''createStackName''),
                      TemplatePath := Some (stringVar vs ''createStackTemplate''),
                      Capabilities := Some (stringsVar vs ''createStackCapabilities''),
                      Parameters := Some (stringMapVar vs ''createStackParams''),
                      ParametersFile := Some (stringVar vs ''createStackParametersFile'')\<rparr>
      else if command = FullCommand deleteStack then
        cliArguments\<lparr>Mode := Some DestroyStackMode,
                      Stack := Some (stringVar vs ''deleteStackName'')\<rparr>
      else if command = FullCommand mfaCommand then
        cliArguments\<lparr>Mode := Some MfaMode\<rparr>
      else if command = FullCommand updateStack then
        cliArguments\<lparr>Mode := Some UpdateStackMode,
                      Stack := Some (stringVar vs ''updateStackName''),
                      TemplatePath := Some (stringVar vs ''updateStackTemplate''),
                      Capabilities := Some (stringsVar vs ''updateStackCapabilities'')\<rparr>
      else if command = FullCommand createParameters then
        cliArguments\<lparr>Mode := Some CreateParametersMode,
                      TemplatePath := Some (stringVar vs ''createParametersTemplate''),
                      OutputFilePath := Some (stringVar vs ''createParametersParamsOutputFile''),
                      Parameters := Some (stringMapVar vs ''createParametersParams''),
                      PrettyPrint := Some (boolVar vs ''createParametersPrettyPrint'')\<rparr>
      else if command = FullCommand createParameters then
        cliArguments\<lparr>Mode := Some CreateParametersMode,
                      TemplatePath := Some (stringVar vs ''createParametersTemplate''),
                      OutputFilePath := Some (stringVar vs ''createParametersParamsOutputFile''),
                      Parameters := Some (stringMapVar vs ''createParametersParams''),
                      PrettyPrint := Some (boolVar vs ''createParametersPrettyPrint'')\<rparr>
      else if command = FullCommand setStackPolicy then
        cliArguments\<lparr>Mode := Some SetStackPolicyMode,
                      Block := Some (boolVar vs ''setDefaultBlockingStackPolicy''),
                      Unblock := Some (boolVar vs ''setDefaultUnblockingStackPolicy''),
                      Stack := Some (stringVar vs ''setStackPolicyName''),
                      TemplatePath := Some (stringVar vs ''setStackPolicyTemplate''),
                      DisableStackTermination := Some (boolVar vs ''setDisableStackTermination''),
                      EnableStackTermination := Some (boolVar vs ''setEnableStackTermination'')\<rparr>
      else if command = FullCommand setupSink then
        cliArguments\<lparr>Mode := Some SetupSinkMode\<rparr>
      else if command = FullCommand destroySink then
        cliArguments\<lparr>Mode := Some DestroySinkMode\<rparr>
      else cliArguments)"

text \<open>Lines 221 to 231, "OTHER FLAGS".\<close>

definition other_flags :: "variables \<Rightarrow> CliArguments \<Rightarrow> CliArguments" where
  "other_flags vs cliArguments =
     cliArguments\<lparr>Quiet := Some (boolVar vs ''quiet''),
                   Yes := Some (boolVar vs ''yes''),
                   Verbosity := Some (stringVar vs ''verbosity''),
                   MFA := Some (boolVar vs ''mfa''),
                   DurationForMFA := Some (int64Var vs ''DurationForMFA''),
                   Profile := Some (stringVar vs ''profile''),
                   Region := Some (stringVar vs ''region''),
                   Sandbox := Some (boolVar vs ''sandbox''),
                   ConfigurationPath := Some (stringVar vs ''configurationPath''),
                   Progress := Some (boolVar vs ''showProgress'')\<rparr>"

text \<open>
  Lines 233 to 248: the three checks, in order; the first that fails sets \<open>err\<close> and
  returns. \<open>None\<close> is the nil error.
\<close>

definition duration_too_small :: string where
  "duration_too_small = ''You should specify value for duration of MFA token greater than zero''"

definition duration_too_large :: string where
  "duration_too_large =
     ''You should specify value for duration of MFA token smaller than 129600 (3 hours)''"

definition verbosity_invalid :: string where
  "verbosity_invalid = ''You specified invalid value for --verbosity flag''"

definition checks :: "int \<Rightarrow> string \<Rightarrow> string option" where
  "checks duration verbosity =
     (if duration < 0 then Some duration_too_small
      else if duration > 129600 then Some duration_too_large
      else if verbosity \<noteq> '''' \<and> \<not> IsVerbosityValid verbosity then Some verbosity_invalid
      else None)"

text \<open>
  What a call of \<open>ParseCliArguments\<close> comes to: it returns the descriptor and the error;
  or the process has ended inside the call, either in kingpin after it printed help, usage,
  version or completions (\<open>Exit_by_kingpin\<close>), or in \<open>kingpin.MustParse\<close>, which
  prints the parse error and exits with status 1 (\<open>Fatal\<close>); or the call panics, which
  \<open>args[1:]\<close> does on an empty slice.
\<close>

datatype outcome = Return CliArguments "string option" | Exit_by_kingpin | Fatal kp_error
  | Panic

text \<open>
  The part of \<open>ParseCliArguments\<close> after \<open>app.Parse\<close> has given its result:
  \<open>kingpin.MustParse\<close>, the \<open>switch\<close>, the other flags, the checks.
\<close>

definition after_Parse :: "parse_result \<Rightarrow> outcome" where
  "after_Parse r =
     (case r of
        Terminated \<Rightarrow> Exit_by_kingpin
      | Failed e \<Rightarrow> Fatal e
      | Selected command vs \<Rightarrow>
          (let cliArguments = other_flags vs (switch_command command vs zero_CliArguments)
           in Return cliArguments
                (checks (int64Var vs ''DurationForMFA'') (stringVar vs ''verbosity''))))"

definition ParseCliArguments :: "string list \<Rightarrow> outcome" where
  "ParseCliArguments args =
     (case args of
        [] \<Rightarrow> Panic
      | program # rest \<Rightarrow> after_Parse (Parse rest))"

text \<open>
  The same function with the second \<open>createParameters\<close> case removed, for comparison.
\<close>

definition switch_command_dedup :: "string \<Rightarrow> variables \<Rightarrow> CliArguments \<Rightarrow> CliArguments" where
  "switch_command_dedup command vs cliArguments =
     (if command = FullCommand onlineValidate then
        cliArguments\<lparr>Mode := Some ValidateMode,
                      TemplatePath := Some (stringVar vs ''onlineValidateTemplate'')\<rparr>
      else if command = FullCommand offlineValidate then
        cliArguments\<lparr>Mode := Some OfflineValidateMode,
                      TemplatePath := Some (stringVar vs ''offlineValidateTemplate'')\<rparr>
      else if command = FullCommand convert then
        cliArguments\<lparr>Mode := Some ConvertMode,
                      TemplatePath := Some (stringVar vs ''convertTemplate''),
                      OutputFilePath := Some (stringVar vs ''convertOutputFile''),
                      PrettyPrint := Some (boolVar vs ''convertPrettyPrint'')\<rparr>
      else if command = FullCommand configure then
        cliArguments\<lparr>Mode := Some ConfigureMode\<rparr>
      else if command = FullCommand createStack then
        cliArguments\<lparr>Mode := Some CreateStackMode,
                      Stack := Some (stringVar vs ''createStackName''),
                      TemplatePath := Some (stringVar vs ''createStackTemplate''),
                      Capabilities := Some (stringsVar vs ''createStackCapabilities''),
                      Parameters := Some (stringMapVar vs ''createStackParams''),
                      ParametersFile := Some (stringVar vs ''createStackParametersFile'')\<rparr>
      else if command = FullCommand deleteStack then
        cliArguments\<lparr>Mode := Some DestroyStackMode,
                      Stack := Some (stringVar vs ''deleteStackName'')\<rparr>
      else if command = FullCommand mfaCommand then
        cliArguments\<lparr>Mode := Some MfaMode\<rparr>
      else if command = FullCommand updateStack then
        cliArguments\<lparr>Mode := Some UpdateStackMode,
                      Stack := Some (stringVar vs ''updateStackName''),
                      TemplatePath := Some (stringVar vs ''updateStackTemplate''),
                      Capabilities := Some (stringsVar vs ''updateStackCapabilities'')\<rparr>
      else if command = FullCommand createParameters then
        cliArguments\<lparr>Mode := Some CreateParametersMode,
                      TemplatePath := Some (stringVar vs ''createParametersTemplate''),
                      OutputFilePath := Some (stringVar vs ''createParametersParamsOutputFile''),
                      Parameters := Some (stringMapVar vs ''createParametersParams''),
                      PrettyPrint := Some (boolVar vs ''createParametersPrettyPrint'')\<rparr>
      else if command = FullCommand setStackPolicy then
        cliArguments\<lparr>Mode := Some SetStackPolicyMode,
                      Block := Some (boolVar vs ''setDefaultBlockingStackPolicy''),
                      Unblock := Some (boolVar vs ''setDefaultUnblockingStackPolicy''),
                      Stack := Some (stringVar vs ''setStackPolicyName''),
                      TemplatePath := Some (stringVar vs ''setStackPolicyTemplate''),
                      DisableStackTermination := Some (boolVar vs ''setDisableStackTermination''),
                      EnableStackTermination := Some (boolVar vs ''setEnableStackTermination'')\<rparr>
      else if command = FullCommand setupSink then
        cliArguments\<lparr>Mode := Some SetupSinkMode\<rparr>
      else if command = FullCommand destroySink then
        cliArguments\<lparr>Mode := Some DestroySinkMode\<rparr>
      else cliArguments)"

definition after_Parse_dedup :: "parse_result \<Rightarrow> outcome" where
  "after_Parse_dedup r =
     (case r of
        Terminated \<Rightarrow> Exit_by_kingpin
      | Failed e \<Rightarrow> Fatal e
      | Selected command vs \<Rightarrow>
          (let cliArguments = other_flags vs (switch_command_dedup command vs zero_CliArguments)
           in Return cliArguments
                (checks (int64Var vs ''DurationForMFA'') (stringVar vs ''verbosity''))))"

definition ParseCliArguments_dedup :: "string list \<Rightarrow> outcome" where
  "ParseCliArguments_dedup args =
     (case args of
        [] \<Rightarrow> Panic
      | program # rest \<Rightarrow> after_Parse_dedup (Parse rest))"

section \<open>The dispatcher (main.go)\<close>

text \<open>
  \<open>main\<close> after \<open>context.GetContext\<close> has run \<open>ParseCliArguments\<close> without error:
  a sequence of \<open>if\<close> statements on \<open>*context.CliArguments.Mode\<close>. What the model
  keeps of a run is which operations of the other packages were called, in order, and how
  the run ended.
\<close>

datatype operation =
    ValidateAndEstimateCosts | Convert | OfflineValidate | ConfiguratorFileName | NewStack
  | DestroyStack | UpdateSessionToken | UpdateStack | ConfigureRemoteSink | DestroyRemoteSink
  | ConfigureParameters | SetTerminationProtection | ApplyStackPolicy

text \<open>
  A run is still going (\<open>Running\<close>), has left through \<open>os.Exit\<close> (\<open>Exited\<close>), or
  has dereferenced a nil pointer (\<open>NilDereference\<close>); each with the operations called so
  far.
\<close>

datatype run = Running "operation list" | Exited "operation list"
  | NilDereference "operation list"

text \<open>
  One \<open>if *context.CliArguments.Mode == m { body }\<close>: nothing happens once the process
  has ended; the dereference needs \<open>Mode\<close> not to be nil.
\<close>

definition if_Mode :: "CliArguments \<Rightarrow> string \<Rightarrow> (operation list \<Rightarrow> run) \<Rightarrow> run \<Rightarrow> run" where
  "if_Mode cli m body r =
     (case r of
        Running ops \<Rightarrow>
          (case Mode cli of
             None \<Rightarrow> NilDereference ops
           | Some mode \<Rightarrow> if mode = m then body ops else Running ops)
      | _ \<Rightarrow> r)"

text \<open>
  Modelled from the spec: \<open>utilities.CheckErrorCodeAndExit\<close> and
  \<open>utilities.CheckFlagAndExit\<close> (package \<open>utilities\<close>) end the process with the exit
  code the invoked operation decides ("successful dispatch: exit code determined by the
  invoked collaborator"). The branches of configure, mfa, the two sinks and
  create-parameters call \<open>os.Exit\<close> themselves.
\<close>

definition call_and_exit :: "operation \<Rightarrow> operation list \<Rightarrow> run" where
  "call_and_exit operation ops = Exited (ops @ [operation])"

text \<open>
  The body of the last \<open>if\<close> (lines 103 to 107). Go's \<open>||\<close> evaluates its right operand
  only when the left one is false.
\<close>

definition set_stack_policy_body :: "CliArguments \<Rightarrow> operation list \<Rightarrow> run" where
  "set_stack_policy_body cli ops =
     (case DisableStackTermination cli of
        None \<Rightarrow> NilDereference ops
      | Some True \<Rightarrow> call_and_exit SetTerminationProtection ops
      | Some False \<Rightarrow>
          (case EnableStackTermination cli of
             None \<Rightarrow> NilDereference ops
           | Some True \<Rightarrow> call_and_exit SetTerminationProtection ops
           | Some False \<Rightarrow> call_and_exit ApplyStackPolicy ops))"

definition main :: "CliArguments \<Rightarrow> run" where
  "main cli =
     foldl (\<lambda>r statement. statement r) (Running [])
       [if_Mode cli ValidateMode (call_and_exit ValidateAndEstimateCosts),
        if_Mode cli ConvertMode (call_and_exit Convert),
        if_Mode cli OfflineValidateMode (call_and_exit OfflineValidate),
        if_Mode cli ConfigureMode (call_and_exit ConfiguratorFileName),
        if_Mode cli CreateStackMode (call_and_exit NewStack),
        if_Mode cli DestroyStackMode (call_and_exit DestroyStack),
        if_Mode cli MfaMode (call_and_exit UpdateSessionToken),
        if_Mode cli UpdateStackMode (call_and_exit UpdateStack),
        if_Mode cli SetupSinkMode (call_and_exit ConfigureRemoteSink),
        if_Mode cli DestroySinkMode (call_and_exit DestroyRemoteSink),
        if_Mode cli CreateParametersMode (call_and_exit ConfigureParameters),
        if_Mode cli SetStackPolicyMode (set_stack_policy_body cli)]"

section \<open>Concrete runs\<close>

text \<open>
  An operator who first answers 14, then -1, then 6 to the region prompt, and first an empty
  line, then \<open>dev\<close> to the profile prompt; one configuration file is already there.
  The second operator never gives an index of the catalog.
\<close>

definition example_world :: world where
  "example_world =
     \<lparr>logged = [],
      numbers = (\<lambda>i. if i = 0 then 14 else if i = 1 then - 1 else 6),
      numbers_read = 0,
      texts = (\<lambda>i. if i = 0 then '''' else ''dev''),
      texts_read = 0,
      filesystem = (\<lambda>p. if p = ''/etc/perun/main.yaml'' then Present else Absent),
      saved = []\<rparr>"

definition stubborn_world :: world where
  "stubborn_world = example_world\<lparr>numbers := (\<lambda>i. 14 + int i)\<rparr>"

section \<open>Properties of the configuration wizard\<close>

subsection \<open>What one call reads and leaves alone\<close>

lemma Logger_Always_fields [simp]:
  "numbers (Logger_Always m w) = numbers w" "numbers_read (Logger_Always m w) = numbers_read w"
  "texts (Logger_Always m w) = texts w" "texts_read (Logger_Always m w) = texts_read w"
  "filesystem (Logger_Always m w) = filesystem w" "saved (Logger_Always m w) = saved w"
  by (simp_all add: Logger_Always_def)

lemma setRegions_fields:
  assumes "setRegions w = (r, e, w')"
  shows "numbers w' = numbers w" "numbers_read w' = Suc (numbers_read w)" "texts w' = texts w"
    "texts_read w' = texts_read w" "filesystem w' = filesystem w" "saved w' = saved w"
    "e = (0 \<le> numbers w (numbers_read w) \<and> numbers w (numbers_read w) < 14)"
    "e \<Longrightarrow> r = makeArrayRegions ! nat (numbers w (numbers_read w))"
  using assms
  by (auto simp: setRegions_def GetInput_int_def Logger_Always_def Logger_Error_def Let_def split: if_splits)

lemma setProfile_fields:
  assumes "setProfile w = (p, e, w')"
  shows "numbers w' = numbers w" "numbers_read w' = numbers_read w" "texts w' = texts w"
    "texts_read w' = Suc (texts_read w)" "filesystem w' = filesystem w" "saved w' = saved w"
    "e = (texts w (texts_read w) \<noteq> '''')"
    "p = texts w (texts_read w)"
  using assms
  by (auto simp: setProfile_def GetInput_string_def Logger_Always_def Logger_Error_def Let_def split: if_splits)

lemma retryRegions_accepted: "retryRegions r True w = Some (r, w)"
  by (simp add: retryRegions.simps)

lemma retryRegions_rejected:
  "retryRegions r False w =
     (case setRegions (Logger_Always ''Try again, invalid region'' w) of
        (r', e', w') \<Rightarrow> retryRegions r' e' w')"
  by (subst retryRegions.simps) simp

lemma retryRegions_first:
  assumes "\<forall>j<k. \<not> (0 \<le> numbers w (numbers_read w + j) \<and> numbers w (numbers_read w + j) < 14)"
    and "0 \<le> numbers w (numbers_read w + k) \<and> numbers w (numbers_read w + k) < 14"
  shows "\<exists>w'. retryRegions r False w = Some (makeArrayRegions ! nat (numbers w (numbers_read w + k)), w')
           \<and> numbers w' = numbers w \<and> numbers_read w' = numbers_read w + Suc k
           \<and> texts w' = texts w \<and> texts_read w' = texts_read w \<and> filesystem w' = filesystem w \<and> saved w' = saved w"
  using assms
proof (induction k arbitrary: w r)
  case 0
  obtain r' e' w' where s: "setRegions (Logger_Always ''Try again, invalid region'' w) = (r', e', w')"
    by (cases "setRegions (Logger_Always ''Try again, invalid region'' w)") auto
  from setRegions_fields[OF s] "0.prems" have "e'" by simp
  with setRegions_fields[OF s] s show ?case
    by (simp add: retryRegions_rejected retryRegions_accepted)
next
  case (Suc k)
  obtain r' e' w' where s: "setRegions (Logger_Always ''Try again, invalid region'' w) = (r', e', w')"
    by (cases "setRegions (Logger_Always ''Try again, invalid region'' w)") auto
  note f = setRegions_fields[OF s]
  from Suc.prems(1) have "\<not> (0 \<le> numbers w (numbers_read w + 0) \<and> numbers w (numbers_read w + 0) < 14)"
    by blast
  with f have ne: "\<not> e'" by simp
  have a: "\<forall>j<k. \<not> (0 \<le> numbers w' (numbers_read w' + j) \<and> numbers w' (numbers_read w' + j) < 14)"
  proof (intro allI impI)
    fix j assume "j < k"
    then have "Suc j < Suc k" by simp
    with Suc.prems(1) have "\<not> (0 \<le> numbers w (numbers_read w + Suc j) \<and> numbers w (numbers_read w + Suc j) < 14)"
      by blast
    with f show "\<not> (0 \<le> numbers w' (numbers_read w' + j) \<and> numbers w' (numbers_read w' + j) < 14)"
      by simp
  qed
  have b: "0 \<le> numbers w' (numbers_read w' + k) \<and> numbers w' (numbers_read w' + k) < 14"
    using Suc.prems(2) f by simp
  from Suc.IH[OF a b, of r'] obtain w'' where
    "retryRegions r' False w' = Some (makeArrayRegions ! nat (numbers w' (numbers_read w' + k)), w'')"
    "numbers w'' = numbers w'" "numbers_read w'' = numbers_read w' + Suc k"
    "texts w'' = texts w'" "texts_read w'' = texts_read w'" "filesystem w'' = filesystem w'" "saved w'' = saved w'"
    by blast
  with f ne s show ?case
    by (simp add: retryRegions_rejected)
qed

lemma retryRegions_returns:
  "retryRegions r e w = Some y \<Longrightarrow>
     e \<or> (\<exists>j. 0 \<le> numbers w (numbers_read w + j) \<and> numbers w (numbers_read w + j) < 14)"
proof (induct rule: retryRegions.raw_induct[rotated, consumes 1, case_names step])
  case (step retry r e w y)
  note 1 = step
  show ?case
  proof (cases e)
    case True
    then show ?thesis by simp
  next
    case False
    obtain r' e' w' where s: "setRegions (Logger_Always ''Try again, invalid region'' w) = (r', e', w')"
      by (cases "setRegions (Logger_Always ''Try again, invalid region'' w)") auto
    note f = setRegions_fields[OF s]
    from 1(2) False s have "retry r' e' w' = Some y" by simp
    from 1(1)[OF this] have "e' \<or> (\<exists>j. 0 \<le> numbers w' (numbers_read w' + j) \<and> numbers w' (numbers_read w' + j) < 14)" .
    then show ?thesis
    proof
      assume e'
      with f have "0 \<le> numbers w (numbers_read w + 0) \<and> numbers w (numbers_read w + 0) < 14" by simp
      then show ?thesis by blast
    next
      assume "\<exists>j. 0 \<le> numbers w' (numbers_read w' + j) \<and> numbers w' (numbers_read w' + j) < 14"
      then obtain j where "0 \<le> numbers w' (numbers_read w' + j) \<and> numbers w' (numbers_read w' + j) < 14" ..
      with f have "0 \<le> numbers w (numbers_read w + Suc j) \<and> numbers w (numbers_read w + Suc j) < 14" by simp
      then show ?thesis by blast
    qed
  qed
qed

lemma retryProfile_accepted: "retryProfile p True w = Some (p, w)"
  by (simp add: retryProfile.simps)

lemma retryProfile_rejected:
  "retryProfile p False w =
     (case setProfile (Logger_Always ''Try again, invalid profile'' w) of
        (p', e', w') \<Rightarrow> retryProfile p' e' w')"
  by (subst retryProfile.simps) simp

lemma retryProfile_first:
  assumes "\<forall>j<m. texts w (texts_read w + j) = ''''"
    and "texts w (texts_read w + m) \<noteq> ''''"
  shows "\<exists>w'. retryProfile p False w = Some (texts w (texts_read w + m), w')
           \<and> numbers w' = numbers w \<and> numbers_read w' = numbers_read w
           \<and> texts w' = texts w \<and> texts_read w' = texts_read w + Suc m \<and> filesystem w' = filesystem w \<and> saved w' = saved w"
  using assms
proof (induction m arbitrary: w p)
  case 0
  obtain p' e' w' where s: "setProfile (Logger_Always ''Try again, invalid profile'' w) = (p', e', w')"
    by (cases "setProfile (Logger_Always ''Try again, invalid profile'' w)") auto
  from setProfile_fields[OF s] "0.prems" have "e'" by simp
  with setProfile_fields[OF s] s show ?case
    by (simp add: retryProfile_rejected retryProfile_accepted)
next
  case (Suc m)
  obtain p' e' w' where s: "setProfile (Logger_Always ''Try again, invalid profile'' w) = (p', e', w')"
    by (cases "setProfile (Logger_Always ''Try again, invalid profile'' w)") auto
  note f = setProfile_fields[OF s]
  from Suc.prems(1) have "texts w (texts_read w + 0) = ''''"
    by blast
  with f have ne: "\<not> e'" by simp
  have a: "\<forall>j<m. texts w' (texts_read w' + j) = ''''"
  proof (intro allI impI)
    fix j assume "j < m"
    then have "Suc j < Suc m" by simp
    with Suc.prems(1) have "texts w (texts_read w + Suc j) = ''''"
      by blast
    with f show "texts w' (texts_read w' + j) = ''''"
      by simp
  qed
  have b: "texts w' (texts_read w' + m) \<noteq> ''''"
    using Suc.prems(2) f by simp
  from Suc.IH[OF a b, of p'] obtain w'' where
    "retryProfile p' False w' = Some (texts w' (texts_read w' + m), w'')"
    "numbers w'' = numbers w'" "numbers_read w'' = numbers_read w'"
    "texts w'' = texts w'" "texts_read w'' = texts_read w' + Suc m" "filesystem w'' = filesystem w'" "saved w'' = saved w'"
    by blast
  with f ne s show ?case
    by (simp add: retryProfile_rejected)
qed

lemma chooseRegion_first:
  assumes "\<forall>j<k. \<not> (0 \<le> numbers w (numbers_read w + j) \<and> numbers w (numbers_read w + j) < 14)"
    and "0 \<le> numbers w (numbers_read w + k) \<and> numbers w (numbers_read w + k) < 14"
  shows "\<exists>w'. chooseRegion w = Some (makeArrayRegions ! nat (numbers w (numbers_read w + k)), w')
           \<and> numbers w' = numbers w \<and> numbers_read w' = numbers_read w + Suc k
           \<and> texts w' = texts w \<and> texts_read w' = texts_read w \<and> filesystem w' = filesystem w \<and> saved w' = saved w"
proof -
  obtain r e w0 where s: "setRegions w = (r, e, w0)"
    by (cases "setRegions w") auto
  note f = setRegions_fields[OF s]
  show ?thesis
  proof (cases k)
    case 0
    with assms(2) f have e by simp
    with f s 0 show ?thesis
      by (simp add: chooseRegion_def retryRegions_accepted)
  next
    case (Suc k')
    with assms(1) have "\<not> (0 \<le> numbers w (numbers_read w + 0) \<and> numbers w (numbers_read w + 0) < 14)"
      by blast
    with f have ne: "\<not> e" by simp
    have a: "\<forall>j<k'. \<not> (0 \<le> numbers w0 (numbers_read w0 + j) \<and> numbers w0 (numbers_read w0 + j) < 14)"
    proof (intro allI impI)
      fix j assume "j < k'"
      then have "Suc j < k" using Suc by simp
      with assms(1) have "\<not> (0 \<le> numbers w (numbers_read w + Suc j) \<and> numbers w (numbers_read w + Suc j) < 14)"
        by blast
      with f show "\<not> (0 \<le> numbers w0 (numbers_read w0 + j) \<and> numbers w0 (numbers_read w0 + j) < 14)"
        by simp
    qed
    have b: "0 \<le> numbers w0 (numbers_read w0 + k') \<and> numbers w0 (numbers_read w0 + k') < 14"
      using assms(2) f Suc by simp
    from retryRegions_first[OF a b, of r] f ne s Suc show ?thesis
      by (simp add: chooseRegion_def)
  qed
qed

lemma chooseProfile_first:
  assumes "\<forall>j<m. texts w (texts_read w + j) = ''''"
    and "texts w (texts_read w + m) \<noteq> ''''"
  shows "\<exists>w'. chooseProfile w = Some (texts w (texts_read w + m), w')
           \<and> numbers w' = numbers w \<and> numbers_read w' = numbers_read w
           \<and> texts w' = texts w \<and> texts_read w' = texts_read w + Suc m \<and> filesystem w' = filesystem w \<and> saved w' = saved w"
proof -
  obtain p e w0 where s: "setProfile w = (p, e, w0)"
    by (cases "setProfile w") auto
  note f = setProfile_fields[OF s]
  show ?thesis
  proof (cases m)
    case 0
    with assms(2) f have e by simp
    with f s 0 show ?thesis
      by (simp add: chooseProfile_def retryProfile_accepted)
  next
    case (Suc m')
    with assms(1) have "texts w (texts_read w + 0) = ''''"
      by blast
    with f have ne: "\<not> e" by simp
    have a: "\<forall>j<m'. texts w0 (texts_read w0 + j) = ''''"
    proof (intro allI impI)
      fix j assume "j < m'"
      then have "Suc j < m" using Suc by simp
      with assms(1) have "texts w (texts_read w + Suc j) = ''''"
        by blast
      with f show "texts w0 (texts_read w0 + j) = ''''"
        by simp
    qed
    have b: "texts w0 (texts_read w0 + m') \<noteq> ''''"
      using assms(2) f Suc by simp
    from retryProfile_first[OF a b, of p] f ne s Suc show ?thesis
      by (simp add: chooseProfile_def)
  qed
qed

lemma chooseRegion_never:
  assumes "\<forall>j. \<not> (0 \<le> numbers w (numbers_read w + j) \<and> numbers w (numbers_read w + j) < 14)"
  shows "chooseRegion w = None"
proof (rule ccontr)
  assume "chooseRegion w \<noteq> None"
  then obtain y where y: "chooseRegion w = Some y" by auto
  obtain r e w0 where s: "setRegions w = (r, e, w0)"
    by (cases "setRegions w") auto
  note f = setRegions_fields[OF s]
  from assms have "\<not> (0 \<le> numbers w (numbers_read w + 0) \<and> numbers w (numbers_read w + 0) < 14)"
    by blast
  with f have ne: "\<not> e" by simp
  from y s have "retryRegions r e w0 = Some y" by (simp add: chooseRegion_def)
  from retryRegions_returns[OF this] ne
  obtain j where "0 \<le> numbers w0 (numbers_read w0 + j) \<and> numbers w0 (numbers_read w0 + j) < 14"
    by blast
  with f have "0 \<le> numbers w (numbers_read w + Suc j) \<and> numbers w (numbers_read w + Suc j) < 14"
    by simp
  with assms show False by blast
qed

lemma length_makeArrayRegions: "length makeArrayRegions = 14"
  by (simp add: makeArrayRegions_def)

lemma setRegions_in_catalog:
  assumes "setRegions w = (r, e, w')" and e
  shows "r \<in> set makeArrayRegions"
proof -
  from setRegions_fields(7,8)[OF assms(1)] assms(2)
  have n: "0 \<le> numbers w (numbers_read w)" "numbers w (numbers_read w) < 14"
    and r: "r = makeArrayRegions ! nat (numbers w (numbers_read w))" by simp_all
  from n have "nat (numbers w (numbers_read w)) < length makeArrayRegions"
    by (simp add: length_makeArrayRegions)
  with r show ?thesis by (simp only: nth_mem)
qed

lemma retryRegions_in_catalog:
  assumes "retryRegions r e w = Some y" and "e \<longrightarrow> r \<in> set makeArrayRegions"
  shows "fst y \<in> set makeArrayRegions"
  using assms
proof (induct rule: retryRegions.raw_induct[rotated, consumes 1, case_names step])
  case (step retry r e w y)
  show ?case
  proof (cases e)
    case True
    with step show ?thesis by auto
  next
    case False
    obtain r' e' w' where s: "setRegions (Logger_Always ''Try again, invalid region'' w) = (r', e', w')"
      by (cases "setRegions (Logger_Always ''Try again, invalid region'' w)") auto
    from step(2) False s have r: "retry r' e' w' = Some y" by simp
    have "e' \<longrightarrow> r' \<in> set makeArrayRegions"
      using setRegions_in_catalog[OF s] by blast
    from step(1)[OF r this] show ?thesis .
  qed
qed

subsection \<open>The claims about the wizard\<close>

text \<open>
  Claim C4. Whatever integer \<open>n\<close> the operator enters as the region choice,
  \<open>setRegions\<close> accepts it exactly when \<open>0 \<le> n < len(catalog)\<close>, the catalog
  having 14 entries, and then returns the region at index \<open>n\<close>, counted from 0, of
  the ordered catalog. For every other \<open>n\<close> it logs the error "Invalid region" and
  reports failure, and the caller asks again: the loop of \<open>createConfig\<close>, entered with
  that failure, logs "Try again, invalid region", prompts once more and, when the next answer
  is inside the catalog, returns the region it names, two answers having been read; and
  when \<open>k\<close> more answers outside the catalog come first, it returns the region of the
  first answer inside, after \<open>k + 2\<close> answers.
\<close>

theorem setRegions_accepts_catalog_indices:
  "length makeArrayRegions = 14 \<and>
   (case setRegions w of (region, err, w') \<Rightarrow>
      err = (0 \<le> numbers w (numbers_read w) \<and> numbers w (numbers_read w) < int (length makeArrayRegions))
      \<and> (err \<longrightarrow> region = makeArrayRegions ! nat (numbers w (numbers_read w)))
      \<and> (\<not> err \<longrightarrow> logged w' = logged w @ [Prompt ''Choose region'', Error ''Invalid region''])
      \<and> numbers_read w' = Suc (numbers_read w)
      \<and> (\<not> err \<and> 0 \<le> numbers w (Suc (numbers_read w))
              \<and> numbers w (Suc (numbers_read w)) < int (length makeArrayRegions) \<longrightarrow>
           retryRegions region err w' =
             Some (makeArrayRegions ! nat (numbers w (Suc (numbers_read w))),
                   w'\<lparr>logged := logged w' @
                         [Always ''Try again, invalid region'', Prompt ''Choose region'',
                          Always (''Your region is: '' @
                                  makeArrayRegions ! nat (numbers w (Suc (numbers_read w))))],
                       numbers_read := Suc (Suc (numbers_read w))\<rparr>))
      \<and> (\<not> err
           \<and> (\<forall>j<k. \<not> (0 \<le> numbers w (Suc (numbers_read w) + j)
                         \<and> numbers w (Suc (numbers_read w) + j) < int (length makeArrayRegions)))
           \<and> 0 \<le> numbers w (Suc (numbers_read w) + k)
           \<and> numbers w (Suc (numbers_read w) + k) < int (length makeArrayRegions) \<longrightarrow>
           (\<exists>w''. retryRegions region err w' =
                     Some (makeArrayRegions ! nat (numbers w (Suc (numbers_read w) + k)), w'')
                 \<and> numbers_read w'' = numbers_read w + k + 2)))"
proof -
  let ?n = "numbers w (numbers_read w)"
  let ?n' = "numbers w (Suc (numbers_read w))"
  show ?thesis
  proof (cases "0 \<le> ?n \<and> ?n < 14")
    case True
    then show ?thesis
      by (simp add: length_makeArrayRegions setRegions_def GetInput_int_def Logger_Always_def
            Let_def)
  next
    case False
    let ?w' = "w\<lparr>logged := logged w @ [Prompt ''Choose region'', Error ''Invalid region''],
                  numbers_read := Suc (numbers_read w)\<rparr>"
    from False have s: "setRegions w = ('''', False, ?w')"
      by (simp add: setRegions_def GetInput_int_def Logger_Error_def Let_def)
    have again: "\<exists>w''. retryRegions '''' False ?w' =
                     Some (makeArrayRegions ! nat (numbers w (Suc (numbers_read w) + k)), w'')
                 \<and> numbers_read w'' = numbers_read w + k + 2"
      if "\<forall>j<k. \<not> (0 \<le> numbers w (Suc (numbers_read w) + j)
                      \<and> numbers w (Suc (numbers_read w) + j) < 14)"
        and "0 \<le> numbers w (Suc (numbers_read w) + k) \<and> numbers w (Suc (numbers_read w) + k) < 14"
    proof -
      from that have
        "\<forall>j<k. \<not> (0 \<le> numbers ?w' (numbers_read ?w' + j) \<and> numbers ?w' (numbers_read ?w' + j) < 14)"
        "0 \<le> numbers ?w' (numbers_read ?w' + k) \<and> numbers ?w' (numbers_read ?w' + k) < 14"
        by simp_all
      from retryRegions_first [OF this, of "''''"] show ?thesis by auto
    qed
    have once: "retryRegions '''' False ?w' =
             Some (makeArrayRegions ! nat ?n',
                   ?w'\<lparr>logged := logged ?w' @
                         [Always ''Try again, invalid region'', Prompt ''Choose region'',
                          Always (''Your region is: '' @ makeArrayRegions ! nat ?n')],
                       numbers_read := Suc (Suc (numbers_read w))\<rparr>)"
      if "0 \<le> ?n' \<and> ?n' < 14"
      using that
      by (simp add: retryRegions_rejected retryRegions_accepted setRegions_def GetInput_int_def
            Logger_Always_def Let_def)
    from False once again show ?thesis
      unfolding s by (auto simp: length_makeArrayRegions)
  qed
qed

theorem setRegions_accepts_catalog_indices_witness:
  "(case setRegions (example_world\<lparr>numbers := (\<lambda>i. 13)\<rparr>) of (region, err, w') \<Rightarrow>
      err \<and> region = ''sa-east-1'' \<and> numbers_read w' = 1) \<and>
   (case setRegions (example_world\<lparr>numbers := (\<lambda>i. if i = 0 then 14 else 3)\<rparr>) of
      (region, err, w') \<Rightarrow>
        \<not> err \<and> logged w' = [Prompt ''Choose region'', Error ''Invalid region'']
        \<and> retryRegions region err w' =
            Some (''us-west-2'',
                  example_world
                    \<lparr>numbers := (\<lambda>i. if i = 0 then 14 else 3),
                     logged := [Prompt ''Choose region'', Error ''Invalid region'',
                                Always ''Try again, invalid region'', Prompt ''Choose region'',
                                Always ''Your region is: us-west-2''],
                     numbers_read := 2\<rparr>)) \<and>
   (case setRegions example_world of (region, err, w') \<Rightarrow>
      \<not> err \<and> (\<exists>w''. retryRegions region err w' = Some (''eu-west-1'', w'')
                      \<and> numbers_read w'' = 3))"
proof -
  let ?a = "example_world\<lparr>numbers := (\<lambda>i. 13)\<rparr>"
  let ?b = "example_world\<lparr>numbers := (\<lambda>i. if i = 0 then 14 else 3)\<rparr>"
  have a: "setRegions ?a =
     (''sa-east-1'', True,
      ?a\<lparr>logged := [Prompt ''Choose region'', Always ''Your region is: sa-east-1''],
          numbers_read := 1\<rparr>)"
    by (simp add: setRegions_def GetInput_int_def Logger_Always_def Let_def example_world_def
          makeArrayRegions_def)
  have b: "setRegions ?b =
     ('''', False,
      ?b\<lparr>logged := [Prompt ''Choose region'', Error ''Invalid region''], numbers_read := 1\<rparr>)"
    by (simp add: setRegions_def GetInput_int_def Logger_Error_def Let_def example_world_def)
  have c: "setRegions example_world =
     ('''', False,
      example_world\<lparr>logged := [Prompt ''Choose region'', Error ''Invalid region''],
                    numbers_read := 1\<rparr>)"
    by (simp add: setRegions_def GetInput_int_def Logger_Error_def Let_def example_world_def)
  from setRegions_accepts_catalog_indices [of ?a] a
  have 1: "case setRegions ?a of (region, err, w') \<Rightarrow>
             err \<and> region = ''sa-east-1'' \<and> numbers_read w' = 1"
    by simp
  from setRegions_accepts_catalog_indices [of ?b]
  have 2: "case setRegions ?b of (region, err, w') \<Rightarrow>
        \<not> err \<and> logged w' = [Prompt ''Choose region'', Error ''Invalid region'']
        \<and> retryRegions region err w' =
            Some (''us-west-2'',
                  example_world
                    \<lparr>numbers := (\<lambda>i. if i = 0 then 14 else 3),
                     logged := [Prompt ''Choose region'', Error ''Invalid region'',
                                Always ''Try again, invalid region'', Prompt ''Choose region'',
                                Always ''Your region is: us-west-2''],
                     numbers_read := 2\<rparr>)"
    unfolding b by (simp add: example_world_def makeArrayRegions_def numeral_2_eq_2)
  from setRegions_accepts_catalog_indices [of example_world 1]
  have 3: "case setRegions example_world of (region, err, w') \<Rightarrow>
      \<not> err \<and> (\<exists>w''. retryRegions region err w' = Some (''eu-west-1'', w'')
                      \<and> numbers_read w'' = 3)"
    unfolding c by (simp add: example_world_def makeArrayRegions_def numeral_3_eq_3)
  from 1 2 3 show ?thesis by blast
qed

text \<open>
  Claim C5. When something already exists at the target path, \<open>findFile\<close> reports
  that the file is already present and returns: no answer of the operator is read (neither
  region nor profile is asked for), no record is built or handed to the persistence
  collaborator, and the file system is what it was. Only the log has grown, by the two lines
  of this path.
\<close>

theorem findFile_existing_file:
  "filesystem w path \<noteq> Absent \<Longrightarrow>
     (\<exists>w'. findFile path w = Some w'
        \<and> logged w' = logged w @ [Always (''File will be created in '' @ path),
                                   Always ''File already exists in this path'']
        \<and> numbers_read w' = numbers_read w \<and> texts_read w' = texts_read w
        \<and> filesystem w' = filesystem w \<and> saved w' = saved w
        \<and> w' = w\<lparr>logged := logged w'\<rparr>)"
  by (simp add: findFile_def IsNotExist_Stat_def Logger_Always_def Let_def)

theorem findFile_existing_file_witness:
  "filesystem example_world ''/etc/perun/main.yaml'' \<noteq> Absent \<and>
   findFile ''/etc/perun/main.yaml'' example_world =
     Some (example_world\<lparr>logged := [Always ''File will be created in /etc/perun/main.yaml'',
                                     Always ''File already exists in this path'']\<rparr>)"
  using findFile_existing_file [of example_world "''/etc/perun/main.yaml''"]
  by (auto simp: example_world_def)

text \<open>
  Claim C6. When the operator's \<open>k\<close>-th further answer to the region prompt is the
  first one inside the catalog and the \<open>m\<close>-th further answer to the profile prompt is
  the first non-empty one, \<open>createConfig\<close> returns, and the record it builds has that
  region and that profile, \<open>DefaultDurationForMFA = 3600\<close>,
  \<open>DefaultDecisionForMFA = false\<close>, \<open>DefaultVerbosity = "INFO"\<close> and, as
  \<open>SpecificationURL\<close>, the whole static map from regions to URLs.
\<close>

theorem createConfig_record:
  assumes "\<forall>j<k. \<not> (0 \<le> numbers w (numbers_read w + j) \<and> numbers w (numbers_read w + j) < 14)"
    and "0 \<le> numbers w (numbers_read w + k) \<and> numbers w (numbers_read w + k) < 14"
    and "\<forall>j<m. texts w (texts_read w + j) = ''''"
    and "texts w (texts_read w + m) \<noteq> ''''"
  shows "\<exists>w'. createConfig w =
      Some (\<lparr>DefaultProfile = texts w (texts_read w + m),
             DefaultRegion = makeArrayRegions ! nat (numbers w (numbers_read w + k)),
             SpecificationURL = resourceSpecificationURL,
             DefaultDecisionForMFA = False,
             DefaultDurationForMFA = 3600,
             DefaultVerbosity = ''INFO''\<rparr>, w')"
proof -
  from chooseRegion_first[OF assms(1,2)] obtain w1 where
    r: "chooseRegion w = Some (makeArrayRegions ! nat (numbers w (numbers_read w + k)), w1)"
    and t: "texts w1 = texts w" "texts_read w1 = texts_read w"
    by blast
  from assms(3,4) t have "\<forall>j<m. texts w1 (texts_read w1 + j) = ''''" "texts w1 (texts_read w1 + m) \<noteq> ''''"
    by simp_all
  from chooseProfile_first[OF this] t obtain w2 where
    "chooseProfile w1 = Some (texts w (texts_read w + m), w2)"
    by auto
  with r show ?thesis
    by (simp add: createConfig_def)
qed

theorem createConfig_record_witness:
  "\<exists>w'. createConfig example_world =
      Some (\<lparr>DefaultProfile = ''dev'',
             DefaultRegion = ''eu-west-1'',
             SpecificationURL = resourceSpecificationURL,
             DefaultDecisionForMFA = False,
             DefaultDurationForMFA = 3600,
             DefaultVerbosity = ''INFO''\<rparr>, w')"
  using createConfig_record [of 2 example_world 1]
  by (simp add: example_world_def makeArrayRegions_def numeral_2_eq_2 less_Suc_eq)

text \<open>
  Claim C7. The region part of \<open>createConfig\<close> (first call and retry loop): if the
  operator gives \<open>k\<close> indices outside the catalog and then one inside, the loop ends
  after \<open>k + 1\<close> answers with the region that index names; if every answer is outside
  the catalog the loop never ends.
\<close>

theorem region_retry_loop:
  "((\<forall>j<k. \<not> (0 \<le> numbers w (numbers_read w + j) \<and> numbers w (numbers_read w + j) < 14))
      \<and> 0 \<le> numbers w (numbers_read w + k) \<and> numbers w (numbers_read w + k) < 14
    \<longrightarrow> (\<exists>w'. chooseRegion w = Some (makeArrayRegions ! nat (numbers w (numbers_read w + k)), w')
              \<and> numbers_read w' = numbers_read w + Suc k))
   \<and> ((\<forall>j. \<not> (0 \<le> numbers w (numbers_read w + j) \<and> numbers w (numbers_read w + j) < 14))
    \<longrightarrow> chooseRegion w = None)"
proof (intro conjI impI)
  assume a: "(\<forall>j<k. \<not> (0 \<le> numbers w (numbers_read w + j) \<and> numbers w (numbers_read w + j) < 14))
      \<and> 0 \<le> numbers w (numbers_read w + k) \<and> numbers w (numbers_read w + k) < 14"
  then have "\<forall>j<k. \<not> (0 \<le> numbers w (numbers_read w + j) \<and> numbers w (numbers_read w + j) < 14)"
    and "0 \<le> numbers w (numbers_read w + k) \<and> numbers w (numbers_read w + k) < 14"
    by blast+
  from chooseRegion_first[OF this]
  show "\<exists>w'. chooseRegion w = Some (makeArrayRegions ! nat (numbers w (numbers_read w + k)), w')
              \<and> numbers_read w' = numbers_read w + Suc k"
    by blast
next
  assume "\<forall>j. \<not> (0 \<le> numbers w (numbers_read w + j) \<and> numbers w (numbers_read w + j) < 14)"
  then show "chooseRegion w = None" by (rule chooseRegion_never)
qed

theorem region_retry_loop_witness:
  "(\<exists>w'. chooseRegion example_world = Some (''eu-west-1'', w') \<and> numbers_read w' = 3)
   \<and> chooseRegion stubborn_world = None"
  using region_retry_loop [of 2 example_world] region_retry_loop [of 0 stubborn_world]
  by (simp add: example_world_def stubborn_world_def makeArrayRegions_def numeral_2_eq_2
      numeral_3_eq_3 less_Suc_eq)

text \<open>
  Claim C10. The catalog of 14 regions holds \<open>ca-central-1\<close> at index 4 and again at
  index 5, so its entries are not pairwise distinct; \<open>eu-central-1\<close> is a key of the
  URL map and is at no index of the catalog, so neither \<open>setRegions\<close> nor the
  whole wizard can ever return it as the region.
\<close>

theorem catalog_duplicate_and_gap:
  "length makeArrayRegions = 14
   \<and> makeArrayRegions ! 4 = ''ca-central-1'' \<and> makeArrayRegions ! 5 = ''ca-central-1''
   \<and> \<not> distinct makeArrayRegions
   \<and> resourceSpecificationURL ''eu-central-1'' = Some ''https://d1mta8qj7i28i2.cloudfront.net''
   \<and> ''eu-central-1'' \<notin> set makeArrayRegions
   \<and> fst (setRegions w) \<noteq> ''eu-central-1''
   \<and> (\<forall>cfg w'. createConfig w = Some (cfg, w') \<longrightarrow> DefaultRegion cfg \<noteq> ''eu-central-1'')"
proof -
  have notin: "''eu-central-1'' \<notin> set makeArrayRegions"
    by (simp add: makeArrayRegions_def)
  have set1: "fst (setRegions w) \<noteq> ''eu-central-1''"
  proof (cases "setRegions w")
    case (fields r e w')
    show ?thesis
    proof (cases e)
      case True
      from setRegions_in_catalog[OF fields True] notin fields show ?thesis by auto
    next
      case False
      with fields show ?thesis
        by (auto simp: setRegions_def GetInput_int_def Let_def split: if_splits)
    qed
  qed
  have cc: "\<forall>cfg w'. createConfig w = Some (cfg, w') \<longrightarrow> DefaultRegion cfg \<noteq> ''eu-central-1''"
  proof (intro allI impI)
    fix cfg w' assume c: "createConfig w = Some (cfg, w')"
    then obtain r w1 where r: "chooseRegion w = Some (r, w1)" and d: "DefaultRegion cfg = r"
      by (auto simp: createConfig_def split: option.splits prod.splits)
    obtain r0 e0 w0 where s: "setRegions w = (r0, e0, w0)"
      by (cases "setRegions w") auto
    with r have "retryRegions r0 e0 w0 = Some (r, w1)" by (simp add: chooseRegion_def)
    from retryRegions_in_catalog[OF this] setRegions_in_catalog[OF s]
    have "r \<in> set makeArrayRegions" by auto
    with notin d show "DefaultRegion cfg \<noteq> ''eu-central-1''" by auto
  qed
  show ?thesis
    using notin set1 cc
    by (simp add: makeArrayRegions_def resourceSpecificationURL_def resourceSpecificationURL_entries_def)
qed

theorem catalog_duplicate_and_gap_witness:
  "\<exists>cfg w'. createConfig example_world = Some (cfg, w') \<and> DefaultRegion cfg \<noteq> ''eu-central-1''"
proof -
  from chooseRegion_first [of 2 example_world]
  obtain r w1 where r: "chooseRegion example_world = Some (r, w1)"
    and t: "texts w1 = texts example_world" "texts_read w1 = texts_read example_world"
    by (auto simp: example_world_def numeral_2_eq_2 less_Suc_eq)
  from chooseProfile_first [of 1 w1] t
  obtain p w2 where "chooseProfile w1 = Some (p, w2)"
    by (auto simp: example_world_def)
  with r obtain cfg where c: "createConfig example_world = Some (cfg, w2)"
    by (simp add: createConfig_def)
  with catalog_duplicate_and_gap [of example_world] show ?thesis by blast
qed

section \<open>Properties of the parser and of the dispatcher\<close>

subsection \<open>Evaluation and auxiliary facts\<close>

text \<open>
  The definitions a concrete command line is evaluated with, first those of the library's
  parser, then those of \<open>ParseCliArguments\<close>.
\<close>

lemmas kingpin_eval = Parse_def parse_def tokenize_def
  parse_loop.simps parse_step_def Peek_def Next_def flagGroup_parse_def matchFlagValue_def
  matchedFlag_def matchedArg_def matchedCmd_def nextArg_def long_flag_def short_flag_def
  IsBoolFlag_def IsCumulative_def app_flags_def library_flags_def HelpFlag_def VersionFlag_def
  app_commands_def command_defs mode_defs FullCommand_def set_value_def selected_def
  terminating_PreAction_def is_HelpFlag_def validateRequired_def boolVar_def stringVar_def
  stringsVar_def int64Var_def stringMapVar_def ParseInt_def ParseUint_def digit_value_def
  is_separator_def Let_def

lemmas cliparser_eval = ParseCliArguments_def after_Parse_def switch_command_def other_flags_def
  checks_def zero_CliArguments_def IsVerbosityValid_def

lemma checks_None_iff:
  "checks d v = None \<longleftrightarrow> 0 \<le> d \<and> d \<le> 129600 \<and> (v = '''' \<or> IsVerbosityValid v)"
  by (auto simp: checks_def)

lemma switch_same: "switch_command command vs c = switch_command_dedup command vs c"
  by (simp add: switch_command_def switch_command_dedup_def)

lemma main_set_stack_policy:
  assumes "Mode cli = Some SetStackPolicyMode"
    and "DisableStackTermination cli = Some d" and "EnableStackTermination cli = Some e"
  shows "main cli = Exited [if d \<or> e then SetTerminationProtection else ApplyStackPolicy]"
  using assms
  by (simp add: main_def if_Mode_def set_stack_policy_body_def call_and_exit_def mode_defs
        split: bool.split)

lemma parsed_set_stack_policy:
  assumes "ParseCliArguments args = Return cli err" and "Mode cli = Some SetStackPolicyMode"
  shows "\<exists>d e. DisableStackTermination cli = Some d \<and> EnableStackTermination cli = Some e"
proof -
  from assms(1) obtain program rest where "args = program # rest"
    by (cases args) (auto simp: ParseCliArguments_def)
  with assms(1) obtain command vs where
    cli: "cli = other_flags vs (switch_command command vs zero_CliArguments)"
    by (cases "Parse rest") (auto simp: ParseCliArguments_def after_Parse_def Let_def)
  have "Mode cli = Mode (switch_command command vs zero_CliArguments)"
    unfolding cli by (simp add: other_flags_def)
  with assms(2) have "command = ''set-stack-policy''"
    by (simp add: switch_command_def zero_CliArguments_def FullCommand_def command_defs mode_defs
          split: if_splits)
  then show ?thesis
    unfolding cli
    by (simp add: other_flags_def switch_command_def FullCommand_def command_defs mode_defs)
qed

subsection \<open>The claims about the parser and the dispatcher\<close>

text \<open>
  Claim C9. The second \<open>createParameters\<close> case of the \<open>switch\<close> can never run:
  \<open>ParseCliArguments\<close> and the same function without that case give the same outcome
  on every argument list. The same holds for the part after the library's parse, whatever
  the library returns, and for the \<open>switch\<close> alone.
\<close>

theorem duplicate_case_unreachable:
  "ParseCliArguments args = ParseCliArguments_dedup args
   \<and> after_Parse r = after_Parse_dedup r
   \<and> switch_command command vs c = switch_command_dedup command vs c"
  by (simp add: ParseCliArguments_def ParseCliArguments_dedup_def after_Parse_def
        after_Parse_dedup_def switch_same split: list.split parse_result.split)

text \<open>
  Claim C2. The command line
  \<open>create-stack mystack template.json --capabilities CAPABILITY_IAM\<close>, under any
  program name, is parsed without error, and the descriptor has the mode
  \<open>create-stack\<close>, the stack \<open>mystack\<close>, the template path
  \<open>template.json\<close> and the capabilities \<open>[CAPABILITY_IAM]\<close>.
\<close>

theorem create_stack_example:
  "\<exists>c. ParseCliArguments [program, ''create-stack'', ''mystack'', ''template.json'',
                            ''--capabilities'', ''CAPABILITY_IAM''] = Return c None
     \<and> Mode c = Some ''create-stack'' \<and> Mode c = Some CreateStackMode
     \<and> Stack c = Some ''mystack''
     \<and> TemplatePath c = Some ''template.json''
     \<and> Capabilities c = Some [''CAPABILITY_IAM'']"
  by (simp add: kingpin_eval cliparser_eval)

text \<open>
  Claim C1 says that the validation succeeds exactly for durations from 1 to 129600 and that
  a duration of 0 fails by the lower bound. The flag's help text gives the range
  \<open>[1, 129600]\<close> and the message of the lower bound asks for a value "greater than
  zero", but the check of line 233 is \<open>< 0\<close>: the command line
  \<open>perun mfa --duration 0\<close> is accepted, with no error and the duration 0 in the
  descriptor. The values -1 and 129601 are refused, with two different messages.
\<close>

theorem duration_zero_is_accepted:
  "(\<exists>c. ParseCliArguments [''perun'', ''mfa'', ''--duration'', ''0''] = Return c None
        \<and> DurationForMFA c = Some 0)
   \<and> checks 0 '''' = None
   \<and> checks (- 1) '''' = Some duration_too_small
   \<and> checks 129601 '''' = Some duration_too_large
   \<and> duration_too_small \<noteq> duration_too_large"
  by (simp add: kingpin_eval cliparser_eval duration_too_small_def duration_too_large_def)




text \<open>
  Claim C3. For a descriptor that \<open>ParseCliArguments\<close> returned without error in the
  mode \<open>set-stack-policy\<close>, both termination flags are set pointers, and \<open>main\<close>
  calls exactly one operation and leaves: \<open>SetTerminationProtection\<close> when at least
  one of \<open>--disable-stack-termination\<close> and \<open>--enable-stack-termination\<close> was
  given, \<open>ApplyStackPolicy\<close> when neither was.
\<close>

theorem set_stack_policy_dispatch:
  assumes "ParseCliArguments args = Return cli None" and "Mode cli = Some SetStackPolicyMode"
  shows "\<exists>d e. DisableStackTermination cli = Some d \<and> EnableStackTermination cli = Some e
           \<and> main cli = Exited [if d \<or> e then SetTerminationProtection else ApplyStackPolicy]"
  using parsed_set_stack_policy[OF assms] main_set_stack_policy[OF assms(2)] by blast

theorem set_stack_policy_dispatch_witness:
  "(\<exists>cli. ParseCliArguments [''perun'', ''set-stack-policy'', ''mystack'',
                                    ''--enable-stack-termination''] = Return cli None
       \<and> Mode cli = Some SetStackPolicyMode
       \<and> main cli = Exited [SetTerminationProtection])
   \<and> (\<exists>cli. ParseCliArguments [''perun'', ''set-stack-policy'', ''mystack'', ''policy.json'']
                 = Return cli None
       \<and> Mode cli = Some SetStackPolicyMode
       \<and> main cli = Exited [ApplyStackPolicy])"
proof -
  obtain c1 where c1:
    "ParseCliArguments [''perun'', ''set-stack-policy'', ''mystack'',
                        ''--enable-stack-termination''] = Return c1 None"
    "Mode c1 = Some SetStackPolicyMode"
    "DisableStackTermination c1 = Some False" "EnableStackTermination c1 = Some True"
    by (simp add: kingpin_eval cliparser_eval)
  obtain c2 where c2:
    "ParseCliArguments [''perun'', ''set-stack-policy'', ''mystack'', ''policy.json'']
       = Return c2 None"
    "Mode c2 = Some SetStackPolicyMode"
    "DisableStackTermination c2 = Some False" "EnableStackTermination c2 = Some False"
    by (simp add: kingpin_eval cliparser_eval)
  from set_stack_policy_dispatch [OF c1(1,2)] c1(3,4)
  have "main c1 = Exited [SetTerminationProtection]" by auto
  moreover from set_stack_policy_dispatch [OF c2(1,2)] c2(3,4)
  have "main c2 = Exited [ApplyStackPolicy]" by auto
  ultimately show ?thesis using c1(1,2) c2(1,2) by blast
qed

end
